theory Spec2Isabelle
  imports Complex_Main "HOL-Library.Multiset"
begin

section \<open>CORAL implementation recipe: label encoding, rank loss, rank decoding\<close>

text \<open>
  The notebook works on PyTorch tensors of 32-bit floats. The embedding idealises the
  floats as real numbers: a one-dimensional tensor is a \<open>real list\<close>, and Python
  integers are \<open>int\<close>. Rounding, overflow and the saturation of \<open>sigmoid\<close> at 0 and 1
  for scores of large magnitude are therefore outside this model; the one float value
  that is kept is \<open>nan\<close> as the mean of an empty tensor. Where float rounding decides
  a claim, a second embedding with every operation rounded to float32 is used.
\<close>

subsection \<open>Level encoder\<close>

text \<open>
  \<^verbatim>\<open>
  def label_to_levels(label, num_classes):
      levels = [1]*label + [0]*(num_classes - 1 - label)
      levels = torch.tensor(levels, dtype=torch.float32)
      return levels
  \<close>
  Python's list repetition \<open>[x]*n\<close> yields the empty list for every \<open>n \<le> 0\<close>;
  \<open>nat\<close> maps the negative integers to \<open>0\<close> in the same way. The function has no check
  of its arguments. The repetition itself raises \<open>OverflowError\<close> for a count that does
  not fit the index type (below \<open>-2^63\<close> or from \<open>2^63\<close> on) and \<open>MemoryError\<close> for a
  list that does not fit the memory; the embedding has no such failure and stands for
  the code on counts that the machine can hold.
\<close>

definition list_repeat :: "'a \<Rightarrow> int \<Rightarrow> 'a list" where
  "list_repeat x n = replicate (nat n) x"

definition label_to_levels :: "int \<Rightarrow> int \<Rightarrow> real list" where
  "label_to_levels label num_classes =
     map real_of_int (list_repeat 1 label @ list_repeat 0 (num_classes - 1 - label))"

subsection \<open>Tensors and the tensor-library primitives the notebook calls\<close>

text \<open>
  A two-dimensional tensor keeps its column count beside its rows, so that the shape
  \<open>(0, c)\<close> of an empty batch is represented. It is well formed when every row has
  \<open>ncols\<close> entries; every tensor the library builds is.
\<close>

record tensor2 =
  ncols :: nat
  rows :: "real list list"

definition nrows :: "tensor2 \<Rightarrow> nat" where
  "nrows T = length (rows T)"

definition wf_tensor2 :: "tensor2 \<Rightarrow> bool" where
  "wf_tensor2 T = list_all (\<lambda>r. length r = ncols T) (rows T)"

text \<open>
  The only exception the modelled code can meet is the library's \<open>RuntimeError\<close> for
  shapes that cannot be combined. A float result is either a number or \<open>nan\<close>, which
  \<open>torch.mean\<close> returns (without raising) for a tensor with no element.
\<close>

datatype error = RuntimeError

datatype fval = NaN | Fin real

definition bind_err :: "error + 'a \<Rightarrow> ('a \<Rightarrow> error + 'b) \<Rightarrow> error + 'b" where
  "bind_err m f = (case m of Inl e \<Rightarrow> Inl e | Inr a \<Rightarrow> f a)"

text \<open>
  Broadcasting of one dimension: two sizes are compatible when they are equal or one of
  them is 1, and the result has the other size. \<open>expand\<close> repeats the single entry of
  a dimension of size 1; an elementwise operation on two matrices raises when a
  dimension is incompatible and otherwise combines the expanded operands entry by
  entry.
\<close>

definition broadcast_dim :: "nat \<Rightarrow> nat \<Rightarrow> nat option" where
  "broadcast_dim a b =
     (if a = b then Some a else if a = 1 then Some b else if b = 1 then Some a else None)"

definition expand :: "nat \<Rightarrow> 'a list \<Rightarrow> 'a list" where
  "expand n xs = (case xs of [x] \<Rightarrow> replicate n x | _ \<Rightarrow> xs)"

definition broadcast2 :: "(real \<Rightarrow> real \<Rightarrow> real) \<Rightarrow> tensor2 \<Rightarrow> tensor2 \<Rightarrow> error + tensor2" where
  "broadcast2 f A B =
     (case broadcast_dim (nrows A) (nrows B) of
        None \<Rightarrow> Inl RuntimeError
      | Some n \<Rightarrow>
         (case broadcast_dim (ncols A) (ncols B) of
            None \<Rightarrow> Inl RuntimeError
          | Some c \<Rightarrow>
              Inr \<lparr>ncols = c,
                   rows = map2 (\<lambda>ra rb. map2 f (expand c ra) (expand c rb))
                            (expand n (rows A)) (expand n (rows B))\<rparr>))"

definition t_mul :: "tensor2 \<Rightarrow> tensor2 \<Rightarrow> error + tensor2" where
  "t_mul = broadcast2 (\<lambda>x y. x * y)"

definition t_add :: "tensor2 \<Rightarrow> tensor2 \<Rightarrow> error + tensor2" where
  "t_add = broadcast2 (\<lambda>x y. x + y)"

definition t_sub :: "tensor2 \<Rightarrow> tensor2 \<Rightarrow> error + tensor2" where
  "t_sub = broadcast2 (\<lambda>x y. x - y)"

text \<open>
  A one-dimensional tensor of size \<open>c\<close> broadcasts against a matrix as shape
  \<open>(1, c)\<close>. An operation between a number and a tensor (\<open>1 - levels\<close>) and the
  functions \<open>torch.sigmoid\<close>, \<open>torch.log\<close> and \<open>F.logsigmoid\<close> act on every entry.
  The library documents \<open>sigmoid(x) = 1 / (1 + exp(-x))\<close> and
  \<open>logsigmoid(x) = log(1 / (1 + exp(-x)))\<close>. \<open>torch.log\<close> is the natural logarithm; it
  is only ever applied to \<open>sigmoid(x)\<close> and \<open>1 - sigmoid(x)\<close>, which are positive reals.
\<close>

definition as_row :: "real list \<Rightarrow> tensor2" where
  "as_row v = \<lparr>ncols = length v, rows = [v]\<rparr>"

definition t_map :: "(real \<Rightarrow> real) \<Rightarrow> tensor2 \<Rightarrow> tensor2" where
  "t_map f T = \<lparr>ncols = ncols T, rows = map (map f) (rows T)\<rparr>"

definition torch_sigmoid :: "real \<Rightarrow> real" where
  "torch_sigmoid x = 1 / (1 + exp (- x))"

definition logsigmoid :: "real \<Rightarrow> real" where
  "logsigmoid x = ln (1 / (1 + exp (- x)))"

text \<open>
  \<open>torch.sum(T, dim=1)\<close> sums each row of a matrix; \<open>torch.mean\<close> of a one-dimensional
  tensor is the sum divided by the number of entries, and \<open>nan\<close> when there is none.
\<close>

definition torch_sum_dim1 :: "tensor2 \<Rightarrow> real list" where
  "torch_sum_dim1 T = map sum_list (rows T)"

definition torch_mean :: "real list \<Rightarrow> fval" where
  "torch_mean xs = (if xs = [] then NaN else Fin (sum_list xs / real (length xs)))"

text \<open>
  \<open>torch.stack\<close> of one-dimensional tensors: it raises for an empty list and for
  tensors of different sizes.
\<close>

definition torch_stack :: "real list list \<Rightarrow> error + tensor2" where
  "torch_stack ts =
     (case ts of
        [] \<Rightarrow> Inl RuntimeError
      | t # _ \<Rightarrow>
          if list_all (\<lambda>u. length u = length t) ts
          then Inr \<lparr>ncols = length t, rows = ts\<rparr>
          else Inl RuntimeError)"

subsection \<open>Rank loss\<close>

text \<open>
  \<^verbatim>\<open>
  def loss_fn1(logits, levels, imp):
      val =  -torch.sum((torch.log(torch.sigmoid(logits))*levels +
               torch.log(1 - torch.sigmoid(logits))*(1-levels))*imp,
             dim=1)
      return torch.mean(val)
  \<close>
  The scores and the thresholds are matrices with one row per example and the weights
  a vector, as in the notebook. Each arithmetic operator is a broadcasting operation
  that may raise; the first failure is the outcome of the call.
\<close>

definition loss_fn1 :: "tensor2 \<Rightarrow> tensor2 \<Rightarrow> real list \<Rightarrow> error + fval" where
  "loss_fn1 logits levels imp =
     bind_err (t_mul (t_map ln (t_map torch_sigmoid logits)) levels) (\<lambda>a.
     bind_err (t_mul (t_map ln (t_map (\<lambda>p. 1 - p) (t_map torch_sigmoid logits)))
                     (t_map (\<lambda>l. 1 - l) levels)) (\<lambda>b.
     bind_err (t_add a b) (\<lambda>s.
     bind_err (t_mul s (as_row imp)) (\<lambda>p.
       Inr (torch_mean (map uminus (torch_sum_dim1 p)))))))"

text \<open>
  \<^verbatim>\<open>
  def loss_fn2(logits, levels, imp):
      val = (-torch.sum((F.logsigmoid(logits)*levels
                        + (F.logsigmoid(logits) - logits)*(1-levels))*imp,
             dim=1))
      return torch.mean(val)
  \<close>
\<close>

definition loss_fn2 :: "tensor2 \<Rightarrow> tensor2 \<Rightarrow> real list \<Rightarrow> error + fval" where
  "loss_fn2 logits levels imp =
     bind_err (t_mul (t_map logsigmoid logits) levels) (\<lambda>a.
     bind_err (t_sub (t_map logsigmoid logits) logits) (\<lambda>d.
     bind_err (t_mul d (t_map (\<lambda>l. 1 - l) levels)) (\<lambda>b.
     bind_err (t_add a b) (\<lambda>s.
     bind_err (t_mul s (as_row imp)) (\<lambda>p.
       Inr (torch_mean (map uminus (torch_sum_dim1 p))))))))"

subsection \<open>Rank decoder\<close>

text \<open>
  \<^verbatim>\<open>
  predict_levels = probas > 0.5
  predicted_labels = torch.sum(predict_levels, dim=1)
  \<close>
  The comparison gives a tensor of booleans; summing it along dimension 1 counts the
  true entries of each row.
\<close>

definition predict_levels :: "tensor2 \<Rightarrow> bool list list" where
  "predict_levels probas = map (map (\<lambda>p. p > 1 / 2)) (rows probas)"

definition predicted_labels :: "tensor2 \<Rightarrow> int list" where
  "predicted_labels probas = map (\<lambda>r. sum_list (map of_bool r)) (predict_levels probas)"

subsection \<open>The notebook's example batch\<close>

text \<open>
  The notebook's cells bind \<open>levels\<close> (the stacked encodings of the labels 2, 1, 4 for
  five classes) and \<open>logits\<close> (made-up network outputs); here they are
  \<open>batch_levels\<close> and \<open>batch_logits\<close>, apart from the parameters of the loss
  functions. The decimal literals are read as exact rationals.
\<close>

definition NUM_CLASSES :: int where
  "NUM_CLASSES = 5"

definition class_labels :: "int list" where
  "class_labels = [2, 1, 4]"

definition batch_levels :: "error + tensor2" where
  "batch_levels = torch_stack (map (\<lambda>label. label_to_levels label NUM_CLASSES) class_labels)"

definition importance_weights :: "real list" where
  "importance_weights = replicate (nat (NUM_CLASSES - 1)) 1"

definition batch_logits :: tensor2 where
  "batch_logits = \<lparr>ncols = 4,
              rows = [[21 / 10, 18 / 10, - (21 / 10), - (18 / 10)],
                      [19 / 10, - 1, - (15 / 10), - (13 / 10)],
                      [19 / 10, 18 / 10, 17 / 10, 16 / 10]]\<rparr>"

subsection \<open>Float32 arithmetic\<close>

text \<open>
  The tensors of the notebook hold IEEE 754 binary32 numbers, and two of the claims are
  decided by their rounding. In this second embedding a finite float is the real number
  it denotes. \<open>f32\<close> rounds a real to the nearest binary32 value, ties to the even
  significand: the significand has 24 bits and the exponent is at least \<open>-126\<close>, which
  covers the subnormal numbers. Infinities are not represented (overflow, the logarithm
  of zero), so the embedding speaks for the code only where every intermediate value is
  finite and below \<open>2^128\<close> in magnitude.
\<close>

definition pow2 :: "int \<Rightarrow> real" where
  "pow2 e = (if 0 \<le> e then 2 ^ nat e else 1 / 2 ^ nat (- e))"

definition round_even :: "real \<Rightarrow> int" where
  "round_even y =
     (let f = \<lfloor>y\<rfloor>; d = y - of_int f
      in if d < 1 / 2 then f else if 1 / 2 < d then f + 1 else if even f then f else f + 1)"

definition f32 :: "real \<Rightarrow> real" where
  "f32 x =
     (if x = 0 then 0
      else let e = max \<lfloor>log 2 \<bar>x\<bar>\<rfloor> (- 126); q = pow2 (e - 23)
           in of_int (round_even (x / q)) * q)"

text \<open>
  An arithmetic operation on floats returns the rounded exact result. Of the library
  functions, \<open>torch.sigmoid\<close> is computed in float32 as \<open>1 / (1 + exp(-x))\<close>, step by
  step (so it is exactly 1.0 for scores from about 17 on), and \<open>exp\<close>, \<open>torch.log\<close> and
  \<open>F.logsigmoid\<close> are taken to return the rounded exact value. A reduction
  (\<open>torch.sum\<close>, and the sum inside \<open>torch.mean\<close>) accumulates in float32; a tensor of
  fewer than four elements, as all the reductions below are, is added from left to right
  starting from zero, and \<open>torch.mean\<close> divides the sum by the number of elements.
\<close>

definition fadd :: "real \<Rightarrow> real \<Rightarrow> real" where
  "fadd x y = f32 (x + y)"

definition fsub :: "real \<Rightarrow> real \<Rightarrow> real" where
  "fsub x y = f32 (x - y)"

definition fmul :: "real \<Rightarrow> real \<Rightarrow> real" where
  "fmul x y = f32 (x * y)"

definition fdiv :: "real \<Rightarrow> real \<Rightarrow> real" where
  "fdiv x y = f32 (x / y)"

definition exp_f32 :: "real \<Rightarrow> real" where
  "exp_f32 x = f32 (exp x)"

definition sigmoid_f32 :: "real \<Rightarrow> real" where
  "sigmoid_f32 x = fdiv 1 (fadd 1 (exp_f32 (- x)))"

definition log_f32 :: "real \<Rightarrow> real" where
  "log_f32 x = f32 (ln x)"

definition logsigmoid_f32 :: "real \<Rightarrow> real" where
  "logsigmoid_f32 x = f32 (logsigmoid x)"

definition sum_f32 :: "real list \<Rightarrow> real" where
  "sum_f32 xs = foldl fadd 0 xs"

definition torch_sum_dim1_f32 :: "tensor2 \<Rightarrow> real list" where
  "torch_sum_dim1_f32 T = map sum_f32 (rows T)"

definition torch_mean_f32 :: "real list \<Rightarrow> fval" where
  "torch_mean_f32 xs = (if xs = [] then NaN else Fin (fdiv (sum_f32 xs) (real (length xs))))"

text \<open>
  The two loss functions with every operation in float32; the structure is that of
  \<open>loss_fn1\<close> and \<open>loss_fn2\<close> above.
\<close>

definition loss_fn1_f32 :: "tensor2 \<Rightarrow> tensor2 \<Rightarrow> real list \<Rightarrow> error + fval" where
  "loss_fn1_f32 logits levels imp =
     bind_err (broadcast2 fmul (t_map log_f32 (t_map sigmoid_f32 logits)) levels) (\<lambda>a.
     bind_err (broadcast2 fmul (t_map log_f32 (t_map (\<lambda>p. fsub 1 p) (t_map sigmoid_f32 logits)))
                               (t_map (\<lambda>l. fsub 1 l) levels)) (\<lambda>b.
     bind_err (broadcast2 fadd a b) (\<lambda>s.
     bind_err (broadcast2 fmul s (as_row imp)) (\<lambda>p.
       Inr (torch_mean_f32 (map uminus (torch_sum_dim1_f32 p)))))))"

definition loss_fn2_f32 :: "tensor2 \<Rightarrow> tensor2 \<Rightarrow> real list \<Rightarrow> error + fval" where
  "loss_fn2_f32 logits levels imp =
     bind_err (broadcast2 fmul (t_map logsigmoid_f32 logits) levels) (\<lambda>a.
     bind_err (broadcast2 fsub (t_map logsigmoid_f32 logits) logits) (\<lambda>d.
     bind_err (broadcast2 fmul d (t_map (\<lambda>l. fsub 1 l) levels)) (\<lambda>b.
     bind_err (broadcast2 fadd a b) (\<lambda>s.
     bind_err (broadcast2 fmul s (as_row imp)) (\<lambda>p.
       Inr (torch_mean_f32 (map uminus (torch_sum_dim1_f32 p))))))))"

subsection \<open>Reordering and selecting the examples of a batch\<close>

text \<open>
  \<open>permute p xs\<close> lists the entries of \<open>xs\<close> in the order given by the index list
  \<open>p\<close>, as indexing a tensor with an index tensor does (\<open>T[p]\<close>); \<open>p\<close> is a
  permutation of a batch of \<open>n\<close> examples when it lists each of \<open>0, ..., n - 1\<close> once.
  \<open>example T i\<close> is the one-example batch \<open>T[i:i+1]\<close>.
\<close>

definition permute :: "nat list \<Rightarrow> 'a list \<Rightarrow> 'a list" where
  "permute p xs = map (\<lambda>i. xs ! i) p"

definition permute_rows :: "nat list \<Rightarrow> tensor2 \<Rightarrow> tensor2" where
  "permute_rows p T = \<lparr>ncols = ncols T, rows = permute p (rows T)\<rparr>"

definition is_permutation :: "nat list \<Rightarrow> nat \<Rightarrow> bool" where
  "is_permutation p n = (mset p = mset [0..<n])"

definition example :: "tensor2 \<Rightarrow> nat \<Rightarrow> tensor2" where
  "example T i = \<lparr>ncols = ncols T, rows = [rows T ! i]\<rparr>"

subsection \<open>When the loss functions raise\<close>

text \<open>
  Neither loss function checks its arguments; the only failure is the library's shape
  error. \<open>broadcastable\<close> says that the shapes of scores, thresholds and weights can be
  combined: the row counts and the column counts of scores and thresholds are
  compatible, and so are the resulting column count and the size of the weight vector.
\<close>

definition broadcastable :: "tensor2 \<Rightarrow> tensor2 \<Rightarrow> real list \<Rightarrow> bool" where
  "broadcastable logits levels imp =
     (case broadcast_dim (nrows logits) (nrows levels) of
        None \<Rightarrow> False
      | Some n \<Rightarrow>
         (case broadcast_dim (ncols logits) (ncols levels) of
            None \<Rightarrow> False
          | Some c \<Rightarrow> broadcast_dim c (length imp) \<noteq> None))"

subsection \<open>Auxiliary definitions for the proofs\<close>

text \<open>
  The elementwise combination of two tensors of one shape, which is what broadcasting
  comes to when the shapes agree, and the list of weighted terms that \<open>loss_fn2\<close>
  sums for one example.
\<close>

definition zip_t :: "(real \<Rightarrow> real \<Rightarrow> real) \<Rightarrow> tensor2 \<Rightarrow> tensor2 \<Rightarrow> tensor2" where
  "zip_t f A B = \<lparr>ncols = ncols A, rows = map2 (map2 f) (rows A) (rows B)\<rparr>"

definition row_terms2 :: "real list \<Rightarrow> real list \<Rightarrow> real list \<Rightarrow> real list" where
  "row_terms2 w s v =
     map2 (\<lambda>x y. x * y)
       (map2 (\<lambda>x y. x + y)
          (map2 (\<lambda>x y. x * y) (map logsigmoid s) v)
          (map2 (\<lambda>x y. x * y) (map2 (\<lambda>x y. x - y) (map logsigmoid s) s) (map (\<lambda>l. 1 - l) v)))
       w"

text \<open>The function \<open>ln (1 + exp x)\<close>, in which the loss of the example batch is written.\<close>

definition softplus :: "real \<Rightarrow> real" where
  "softplus x = ln (1 + exp x)"

subsection \<open>The rank loss as the specification words it\<close>

text \<open>
  Per-threshold contribution
  \<open>c[i] = w[i] * (logsigmoid(s[i]) * v[i] + (logsigmoid(s[i]) - s[i]) * (1 - v[i]))\<close>,
  summed over the thresholds, averaged over the batch, negated.
\<close>

definition contribution :: "real list \<Rightarrow> real list \<Rightarrow> real list \<Rightarrow> nat \<Rightarrow> real" where
  "contribution w s v i =
     w ! i * (logsigmoid (s ! i) * v ! i + (logsigmoid (s ! i) - s ! i) * (1 - v ! i))"

definition fneg :: "fval \<Rightarrow> fval" where
  "fneg x = (case x of NaN \<Rightarrow> NaN | Fin r \<Rightarrow> Fin (- r))"

definition spec_rank_loss :: "real list list \<Rightarrow> real list list \<Rightarrow> real list \<Rightarrow> fval" where
  "spec_rank_loss S V w =
     fneg (torch_mean (map2 (\<lambda>s v. \<Sum>i\<leftarrow>[0..<length w]. contribution w s v i) S V))"

section \<open>Properties\<close>

subsection \<open>The level encoder in closed form\<close>

lemma label_to_levels_eq:
  "label_to_levels y K = replicate (nat y) 1 @ replicate (nat (K - 1 - y)) 0"
  by (simp add: label_to_levels_def list_repeat_def)

subsection \<open>Broadcasting on matching shapes\<close>

lemma expand_same: "length xs = n \<Longrightarrow> expand n xs = xs"
  by (auto simp: expand_def split: list.splits)

lemma broadcast_dim_same: "broadcast_dim a a = Some a"
  by (simp add: broadcast_dim_def)

lemma broadcast_dim_one: "broadcast_dim a (Suc 0) = Some a"
  by (simp add: broadcast_dim_def)

lemma map2_expand_rows:
  "list_all (\<lambda>r. length r = c) xs \<Longrightarrow> list_all (\<lambda>r. length r = c) ys \<Longrightarrow>
   map2 (\<lambda>ra rb. map2 f (expand c ra) (expand c rb)) xs ys = map2 (map2 f) xs ys"
proof (rule map_cong [OF refl])
  fix p assume p: "p \<in> set (zip xs ys)"
  assume "list_all (\<lambda>r. length r = c) xs" "list_all (\<lambda>r. length r = c) ys"
  then have "length (fst p) = c" "length (snd p) = c"
    using p by (cases p; auto simp: list_all_iff dest: set_zip_leftD set_zip_rightD)+
  then show "(case p of (ra, rb) \<Rightarrow> map2 f (expand c ra) (expand c rb)) =
             (case p of (ra, rb) \<Rightarrow> map2 f ra rb)"
    by (cases p) (simp add: expand_same)
qed

lemma broadcast2_same:
  assumes "wf_tensor2 A" "wf_tensor2 B" "nrows A = nrows B" "ncols A = ncols B"
  shows "broadcast2 f A B = Inr \<lparr>ncols = ncols A, rows = map2 (map2 f) (rows A) (rows B)\<rparr>"
  using assms
  by (simp add: broadcast2_def broadcast_dim_same expand_same nrows_def wf_tensor2_def
      map2_expand_rows)

lemma map2_replicate_right:
  "map2 g xs (replicate (length xs) w) = map (\<lambda>r. g r w) xs"
  by (induction xs) simp_all

lemma map_expand_row:
  "list_all (\<lambda>r. length r = length w) xs \<Longrightarrow>
   map (\<lambda>ra. map2 f (expand (length w) ra) (expand (length w) w)) xs = map (\<lambda>r. map2 f r w) xs"
  by (induction xs) (simp_all add: expand_same)

lemma broadcast2_row:
  assumes "wf_tensor2 A" "ncols A = length w"
  shows "broadcast2 f A (as_row w) = Inr \<lparr>ncols = ncols A, rows = map (\<lambda>r. map2 f r w) (rows A)\<rparr>"
proof -
  have "expand (nrows A) (rows A) = rows A"
    by (simp add: expand_same nrows_def)
  moreover have "expand (nrows A) [w] = replicate (length (rows A)) w"
    by (simp add: expand_def nrows_def)
  ultimately show ?thesis
    using assms
    by (simp add: broadcast2_def as_row_def broadcast_dim_one broadcast_dim_same nrows_def
        wf_tensor2_def map2_replicate_right map_expand_row)
qed

lemma t_map_wf: "wf_tensor2 A \<Longrightarrow> wf_tensor2 (t_map f A)"
  by (simp add: wf_tensor2_def t_map_def list_all_iff)

lemma broadcast2_zip_t:
  assumes "wf_tensor2 A" "wf_tensor2 B" "nrows A = nrows B" "ncols A = ncols B"
  shows "broadcast2 f A B = Inr (zip_t f A B)"
  using broadcast2_same [OF assms] by (simp add: zip_t_def)

lemma zip_t_shape [simp]:
  "ncols (zip_t f A B) = ncols A"
  "nrows A = nrows B \<Longrightarrow> nrows (zip_t f A B) = nrows A"
  by (simp_all add: zip_t_def nrows_def)

lemma zip_t_wf:
  "wf_tensor2 A \<Longrightarrow> wf_tensor2 B \<Longrightarrow> ncols A = ncols B \<Longrightarrow> wf_tensor2 (zip_t f A B)"
proof -
  assume A: "wf_tensor2 A" and B: "wf_tensor2 B" and c: "ncols A = ncols B"
  have "length r = ncols A" if "r \<in> set (map2 (map2 f) (rows A) (rows B))" for r
  proof -
    from that obtain a b where ab: "(a, b) \<in> set (zip (rows A) (rows B))" and r: "r = map2 f a b"
      by auto
    from ab have "a \<in> set (rows A)" "b \<in> set (rows B)"
      by (auto dest: set_zip_leftD set_zip_rightD)
    with A B c have "length a = ncols A" "length b = ncols A"
      by (simp_all add: wf_tensor2_def list_all_iff)
    with r show ?thesis by simp
  qed
  then show ?thesis
    by (simp add: wf_tensor2_def zip_t_def list_all_iff)
qed

lemma t_map_shape [simp]: "ncols (t_map f A) = ncols A" "nrows (t_map f A) = nrows A"
  by (simp_all add: t_map_def nrows_def)

lemma rows_fuse2:
  "length Ls = length Vs \<Longrightarrow>
   map sum_list (map (\<lambda>r. map2 (\<lambda>x y. x * y) r w)
     (map2 (map2 (\<lambda>x y. x + y))
        (map2 (map2 (\<lambda>x y. x * y)) (map (map logsigmoid) Ls) Vs)
        (map2 (map2 (\<lambda>x y. x * y))
           (map2 (map2 (\<lambda>x y. x - y)) (map (map logsigmoid) Ls) Ls)
           (map (map (\<lambda>l. 1 - l)) Vs))))
   = map2 (\<lambda>s v. sum_list (row_terms2 w s v)) Ls Vs"
  by (induction Ls Vs rule: list_induct2) (simp_all add: row_terms2_def)

lemma loss_fn2_rows:
  assumes wfL: "wf_tensor2 L" and wfV: "wf_tensor2 V" and nr: "nrows L = nrows V"
    and nc: "ncols L = ncols V" and lw: "length w = ncols L"
  shows "loss_fn2 L V w =
    Inr (torch_mean (map uminus (map2 (\<lambda>s v. sum_list (row_terms2 w s v)) (rows L) (rows V))))"
proof -
  let ?ls = "t_map logsigmoid L"
  let ?om = "t_map (\<lambda>l. 1 - l) V"
  let ?a = "zip_t (\<lambda>x y. x * y) ?ls V"
  let ?d = "zip_t (\<lambda>x y. x - y) ?ls L"
  let ?b = "zip_t (\<lambda>x y. x * y) ?d ?om"
  let ?s = "zip_t (\<lambda>x y. x + y) ?a ?b"
  have a: "t_mul ?ls V = Inr ?a"
    unfolding t_mul_def using wfL wfV nr nc by (intro broadcast2_zip_t) (simp_all add: t_map_wf)
  have d: "t_sub ?ls L = Inr ?d"
    unfolding t_sub_def using wfL by (intro broadcast2_zip_t) (simp_all add: t_map_wf)
  have wfd: "wf_tensor2 ?d"
    using wfL by (intro zip_t_wf) (simp_all add: t_map_wf)
  have b: "t_mul ?d ?om = Inr ?b"
    unfolding t_mul_def using wfd wfV nr nc by (intro broadcast2_zip_t) (simp_all add: t_map_wf)
  have wfa: "wf_tensor2 ?a"
    using wfL wfV nc by (intro zip_t_wf) (simp_all add: t_map_wf)
  have wfb: "wf_tensor2 ?b"
    using wfd wfV nc by (rule_tac zip_t_wf) (simp_all add: t_map_wf)
  have s: "t_add ?a ?b = Inr ?s"
    unfolding t_add_def using wfa wfb nr by (intro broadcast2_zip_t) simp_all
  have wfs: "wf_tensor2 ?s"
    using wfa wfb by (rule_tac zip_t_wf) simp_all
  have p: "t_mul ?s (as_row w) =
      Inr \<lparr>ncols = ncols ?s, rows = map (\<lambda>r. map2 (\<lambda>x y. x * y) r w) (rows ?s)\<rparr>"
    unfolding t_mul_def using wfs lw by (intro broadcast2_row) simp_all
  have len: "length (rows L) = length (rows V)"
    using nr by (simp add: nrows_def)
  have "loss_fn2 L V w = Inr (torch_mean (map uminus (torch_sum_dim1
      \<lparr>ncols = ncols ?s, rows = map (\<lambda>r. map2 (\<lambda>x y. x * y) r w) (rows ?s)\<rparr>)))"
    by (simp only: loss_fn2_def bind_err_def a d b s p sum.case)
  also have "torch_sum_dim1
      \<lparr>ncols = ncols ?s, rows = map (\<lambda>r. map2 (\<lambda>x y. x * y) r w) (rows ?s)\<rparr> =
      map2 (\<lambda>s v. sum_list (row_terms2 w s v)) (rows L) (rows V)"
    using rows_fuse2 [OF len, of w]
    by (simp add: torch_sum_dim1_def zip_t_def t_map_def del: map_map)
  finally show ?thesis .
qed

lemma row_terms2_nth:
  assumes "length s = length w" "length v = length w"
  shows "row_terms2 w s v = map (contribution w s v) [0..<length w]"
proof (rule nth_equalityI)
  show "length (row_terms2 w s v) = length (map (contribution w s v) [0..<length w])"
    using assms by (simp add: row_terms2_def)
next
  fix i assume "i < length (row_terms2 w s v)"
  then have "i < length w"
    by (simp add: row_terms2_def)
  then show "row_terms2 w s v ! i = map (contribution w s v) [0..<length w] ! i"
    using assms by (simp add: row_terms2_def contribution_def)
qed

lemma torch_mean_uminus: "torch_mean (map uminus xs) = fneg (torch_mean xs)"
proof -
  have "sum_list (map uminus xs) = - sum_list xs"
    by (induction xs) simp_all
  then show ?thesis
    by (simp add: torch_mean_def fneg_def)
qed

lemma wf_rows_length: "wf_tensor2 A \<Longrightarrow> r \<in> set (rows A) \<Longrightarrow> length r = ncols A"
  by (simp add: wf_tensor2_def list_all_iff)

lemma map2_rows_cong:
  assumes "wf_tensor2 L" "wf_tensor2 V"
    and "\<And>s v. length s = ncols L \<Longrightarrow> length v = ncols V \<Longrightarrow> f s v = g s v"
  shows "map2 f (rows L) (rows V) = map2 g (rows L) (rows V)"
proof -
  have "(case p of (s, v) \<Rightarrow> f s v) = (case p of (s, v) \<Rightarrow> g s v)"
    if "p \<in> set (zip (rows L) (rows V))" for p
  proof -
    obtain s v where p: "p = (s, v)"
      by (cases p)
    with that have "s \<in> set (rows L)" "v \<in> set (rows V)"
      by (auto dest: set_zip_leftD set_zip_rightD)
    then have "length s = ncols L" "length v = ncols V"
      using assms(1,2) by (simp_all add: wf_rows_length)
    then show ?thesis
      using assms(3) p by simp
  qed
  then have "\<forall>p\<in>set (zip (rows L) (rows V)).
      (case p of (s, v) \<Rightarrow> f s v) = (case p of (s, v) \<Rightarrow> g s v)"
    by blast
  then show ?thesis
    by (simp only: map_eq_conv)
qed

subsection \<open>Sigmoid, log-sigmoid and the two formulations of the loss\<close>

lemma torch_sigmoid_bounds: "0 < torch_sigmoid x \<and> torch_sigmoid x < 1"
proof -
  have "0 < exp (- x)" by simp
  then show ?thesis
    by (simp add: torch_sigmoid_def add_pos_pos)
qed

lemma log_torch_sigmoid: "ln (torch_sigmoid x) = logsigmoid x"
  by (simp add: torch_sigmoid_def logsigmoid_def)

lemma logsigmoid_alt: "logsigmoid x = - ln (1 + exp (- x))"
proof -
  have "0 < 1 + exp (- x)"
    by (simp add: add_pos_pos)
  then show ?thesis
    by (simp add: logsigmoid_def ln_div)
qed

lemma log1m_torch_sigmoid: "ln (1 - torch_sigmoid x) = logsigmoid x - x"
proof -
  have pos: "0 < 1 + exp (- x)"
    by (simp add: add_pos_pos)
  then have "1 - torch_sigmoid x = exp (- x) / (1 + exp (- x))"
    by (simp add: torch_sigmoid_def field_simps)
  then have "ln (1 - torch_sigmoid x) = ln (exp (- x)) - ln (1 + exp (- x))"
    using pos by (simp add: ln_div)
  then show ?thesis
    by (simp add: logsigmoid_alt)
qed

lemma logsigmoid_neg: "logsigmoid x < 0"
proof -
  have "0 < exp (- x)" by simp
  then have "1 < 1 + exp (- x)" by linarith
  then have "0 < ln (1 + exp (- x))" by (rule ln_gt_zero)
  then show ?thesis by (simp add: logsigmoid_alt)
qed

lemma logsigmoid_minus_neg: "logsigmoid x - x < 0"
proof -
  have "0 < 1 - torch_sigmoid x" "1 - torch_sigmoid x < 1"
    using torch_sigmoid_bounds [of x] by simp_all
  then have "ln (1 - torch_sigmoid x) < 0"
    by (simp add: ln_less_zero)
  then show ?thesis
    by (simp add: log1m_torch_sigmoid)
qed

lemma zip_t_self: "zip_t (\<lambda>x y. x - y) (t_map f L) L = t_map (\<lambda>x. f x - x) L"
proof -
  have row: "map2 (\<lambda>x y. x - y) (map f r) r = map (\<lambda>x. f x - x) r" for r :: "real list"
    by (induction r) simp_all
  have "map2 (map2 (\<lambda>x y. x - y)) (map (map f) rs) rs = map (map (\<lambda>x. f x - x)) rs"
    for rs :: "real list list"
    by (induction rs) (simp_all add: row)
  then show ?thesis
    by (simp add: zip_t_def t_map_def)
qed

lemma t_map_t_map: "t_map f (t_map g T) = t_map (\<lambda>x. f (g x)) T"
  by (simp add: t_map_def comp_def)

lemma loss_fn1_loss_fn2:
  assumes "wf_tensor2 logits"
  shows "loss_fn1 logits levels imp = loss_fn2 logits levels imp"
proof -
  have ls: "t_map ln (t_map torch_sigmoid logits) = t_map logsigmoid logits"
    by (simp add: t_map_t_map log_torch_sigmoid)
  have om: "t_map ln (t_map (\<lambda>p. 1 - p) (t_map torch_sigmoid logits)) =
            t_map (\<lambda>x. logsigmoid x - x) logits"
    by (simp add: t_map_t_map log1m_torch_sigmoid)
  have "t_sub (t_map logsigmoid logits) logits =
        Inr (zip_t (\<lambda>x y. x - y) (t_map logsigmoid logits) logits)"
    unfolding t_sub_def using assms by (intro broadcast2_zip_t) (simp_all add: t_map_wf)
  then have d: "t_sub (t_map logsigmoid logits) logits = Inr (t_map (\<lambda>x. logsigmoid x - x) logits)"
    by (simp only: zip_t_self)
  show ?thesis
    by (simp only: loss_fn1_def loss_fn2_def ls om d bind_err_def sum.case)
qed

lemma contribution_nonpos:
  assumes "0 \<le> w ! i" "v ! i = 0 \<or> v ! i = 1"
  shows "contribution w s v i \<le> 0"
proof -
  have "logsigmoid (s ! i) * v ! i + (logsigmoid (s ! i) - s ! i) * (1 - v ! i) \<le> 0"
    using assms(2) logsigmoid_neg [of "s ! i"] logsigmoid_minus_neg [of "s ! i"] by auto
  then show ?thesis
    using assms(1) by (simp add: contribution_def mult_nonneg_nonpos)
qed

lemma row_sum_nonpos:
  assumes "length s = length w" "length v = length w"
    "list_all (\<lambda>x. 0 \<le> x) w" "list_all (\<lambda>l. l = 0 \<or> l = 1) v"
  shows "sum_list (row_terms2 w s v) \<le> 0"
proof -
  have "contribution w s v i \<le> 0" if "i < length w" for i
    using that assms by (intro contribution_nonpos) (simp_all add: list_all_length)
  then show ?thesis
    unfolding row_terms2_nth [OF assms(1,2)] by (intro sum_list_nonpos) auto
qed

subsection \<open>Sign of the stable loss\<close>

lemma torch_mean_nonneg:
  assumes "xs \<noteq> []" "list_all (\<lambda>x. 0 \<le> x) xs"
  shows "\<exists>r. torch_mean xs = Fin r \<and> 0 \<le> r"
proof -
  have "0 \<le> sum_list xs"
    using assms(2) by (intro sum_list_nonneg) (simp add: list_all_iff)
  then show ?thesis
    using assms(1) by (simp add: torch_mean_def)
qed

lemma loss_fn2_nonneg_aux:
  assumes "wf_tensor2 logits" "wf_tensor2 levels" "nrows logits = nrows levels"
    "ncols logits = ncols levels" "length imp = ncols logits"
    "rows logits \<noteq> []"
    "list_all (list_all (\<lambda>l. l = 0 \<or> l = 1)) (rows levels)"
    "list_all (\<lambda>w. 0 \<le> w) imp"
  shows "\<exists>r. loss_fn2 logits levels imp = Inr (Fin r) \<and> 0 \<le> r"
proof -
  let ?val = "map uminus (map2 (\<lambda>s v. sum_list (row_terms2 imp s v)) (rows logits) (rows levels))"
  have len: "length (rows logits) = length (rows levels)"
    using assms(3) by (simp add: nrows_def)
  have "0 \<le> x" if "x \<in> set ?val" for x
  proof -
    from that obtain s v where sv: "(s, v) \<in> set (zip (rows logits) (rows levels))"
      and x: "x = - sum_list (row_terms2 imp s v)"
      by auto
    from sv have s: "s \<in> set (rows logits)" and v: "v \<in> set (rows levels)"
      by (auto dest: set_zip_leftD set_zip_rightD)
    have "length s = length imp" "length v = length imp"
      using s v assms(1,2,4,5) by (simp_all add: wf_rows_length)
    moreover have "list_all (\<lambda>l. l = 0 \<or> l = 1) v"
      using v assms(7) by (simp add: list_all_iff)
    ultimately have "sum_list (row_terms2 imp s v) \<le> 0"
      using assms(8) by (intro row_sum_nonpos)
    with x show ?thesis by simp
  qed
  then have "list_all (\<lambda>x. 0 \<le> x) ?val"
    by (simp only: list_all_iff) blast
  moreover have "?val \<noteq> []"
    using assms(6) len by (cases "rows logits"; cases "rows levels") simp_all
  ultimately obtain r where "torch_mean ?val = Fin r" "0 \<le> r"
    using torch_mean_nonneg by blast
  then show ?thesis
    using loss_fn2_rows [OF assms(1-5)] by simp
qed

subsection \<open>Counting rule of the rank decoder\<close>

lemma sum_of_bool_count:
  "(\<Sum>x\<leftarrow>xs. of_bool (P x)) = int (length (filter P xs))"
  by (induction xs) simp_all

lemma predicted_labels_count:
  "predicted_labels probas = map (\<lambda>r. int (length (filter (\<lambda>p. p > 1 / 2) r))) (rows probas)"
proof -
  have "sum_list (map of_bool (map (\<lambda>p. p > 1 / 2) r)) = int (length (filter (\<lambda>p. p > 1 / 2) r))"
    for r :: "real list"
    using sum_of_bool_count [of "\<lambda>p. p > 1 / 2" r] by (simp only: map_map comp_def)
  then show ?thesis
    by (simp only: predicted_labels_def predict_levels_def map_map comp_def)
qed

lemma filter_replicate_ones_zeros:
  "filter (\<lambda>p. p > 1 / 2) (replicate m (1::real) @ replicate n 0) = replicate m 1"
  by (simp add: filter_replicate)

lemma sum_list_replicate_real: "sum_list (replicate n (c::real)) = real n * c"
  by (induction n) (simp_all add: algebra_simps)

subsection \<open>Reordering the examples of a batch\<close>

lemma is_permutation_set: "is_permutation p n \<Longrightarrow> set p = {0..<n}"
  by (metis is_permutation_def set_mset_mset set_upt)

lemma is_permutation_length: "is_permutation p n \<Longrightarrow> length p = n"
  by (metis is_permutation_def length_upt mset_eq_length minus_nat.diff_0)

lemma mset_permute:
  assumes "is_permutation p (length xs)"
  shows "mset (permute p xs) = mset xs"
proof -
  have "mset (permute p xs) = image_mset (\<lambda>i. xs ! i) (mset p)"
    by (simp add: permute_def)
  also have "\<dots> = image_mset (\<lambda>i. xs ! i) (mset [0..<length xs])"
    using assms by (simp add: is_permutation_def)
  also have "\<dots> = mset (map (\<lambda>i. xs ! i) [0..<length xs])"
    by simp
  also have "\<dots> = mset xs"
    by (simp only: map_nth)
  finally show ?thesis .
qed

lemma torch_mean_mset:
  assumes "mset xs = mset ys"
  shows "torch_mean xs = torch_mean ys"
proof -
  have "sum_list xs = sum_list ys"
    using assms by (metis sum_mset_sum_list)
  moreover have "length xs = length ys"
    using assms by (rule mset_eq_length)
  ultimately show ?thesis
    by (auto simp: torch_mean_def)
qed

lemma permute_map2:
  assumes "length xs = length ys" "set p \<subseteq> {0..<length xs}"
  shows "map2 f (permute p xs) (permute p ys) = permute p (map2 f xs ys)"
  using assms by (induction p) (simp_all add: permute_def)

lemma permute_map:
  assumes "set p \<subseteq> {0..<length xs}"
  shows "map f (permute p xs) = permute p (map f xs)"
  using assms by (induction p) (simp_all add: permute_def)

lemma permute_rows_wf:
  assumes "wf_tensor2 T" "set p \<subseteq> {0..<nrows T}"
  shows "wf_tensor2 (permute_rows p T)"
proof -
  have "length (rows T ! i) = ncols T" if "i \<in> set p" for i
    using that assms by (intro wf_rows_length) (auto simp: nrows_def)
  then show ?thesis
    by (simp add: wf_tensor2_def permute_rows_def permute_def list_all_iff)
qed

lemma permute_rows_shape [simp]:
  "ncols (permute_rows p T) = ncols T" "nrows (permute_rows p T) = length p"
  by (simp_all add: permute_rows_def permute_def nrows_def)

lemma loss_fn2_permute:
  assumes wfL: "wf_tensor2 logits" and wfV: "wf_tensor2 levels"
    and nL: "nrows logits = n" and nV: "nrows levels = n"
    and nc: "ncols logits = ncols levels" and lw: "length imp = ncols logits"
    and p: "is_permutation p n"
  shows "loss_fn2 (permute_rows p logits) (permute_rows p levels) imp = loss_fn2 logits levels imp"
proof -
  let ?g = "\<lambda>s v. sum_list (row_terms2 imp s v)"
  let ?val = "map uminus (map2 ?g (rows logits) (rows levels))"
  have sub: "set p \<subseteq> {0..<n}" and lp: "length p = n"
    using p by (simp_all add: is_permutation_set is_permutation_length)
  have len: "length (rows logits) = n" "length (rows levels) = n"
    using nL nV by (simp_all add: nrows_def)
  have "loss_fn2 (permute_rows p logits) (permute_rows p levels) imp =
        Inr (torch_mean (map uminus (map2 ?g (rows (permute_rows p logits)) (rows (permute_rows p levels)))))"
    using wfL wfV sub nL nV nc lw by (intro loss_fn2_rows permute_rows_wf) simp_all
  also have "map2 ?g (rows (permute_rows p logits)) (rows (permute_rows p levels)) =
             permute p (map2 ?g (rows logits) (rows levels))"
    using sub len by (simp add: permute_rows_def permute_map2)
  also have "map uminus (permute p (map2 ?g (rows logits) (rows levels))) = permute p ?val"
    using sub len by (intro permute_map) simp
  also have "torch_mean (permute p ?val) = torch_mean ?val"
    using p len by (intro torch_mean_mset mset_permute) simp
  also have "Inr (torch_mean ?val) = loss_fn2 logits levels imp"
    using wfL wfV nL nV nc lw by (intro loss_fn2_rows [symmetric]) simp_all
  finally show ?thesis .
qed

lemma predicted_labels_permute:
  assumes "nrows probas = n" "is_permutation p n"
  shows "predicted_labels (permute_rows p probas) = permute p (predicted_labels probas)"
proof -
  have "set p \<subseteq> {0..<length (rows probas)}"
    using assms by (simp add: is_permutation_set nrows_def)
  then show ?thesis
    by (simp add: predicted_labels_count permute_rows_def permute_map)
qed

lemma example_wf:
  "wf_tensor2 T \<Longrightarrow> i < nrows T \<Longrightarrow> wf_tensor2 (example T i)"
  by (simp add: wf_tensor2_def example_def list_all_length nrows_def)

lemma loss_fn2_example:
  assumes wfL: "wf_tensor2 logits" and wfV: "wf_tensor2 levels"
    and nL: "nrows logits = n" and nV: "nrows levels = n"
    and nc: "ncols logits = ncols levels" and lw: "length imp = ncols logits"
    and i: "i < n"
  shows "loss_fn2 (example logits i) (example levels i) imp =
         Inr (Fin (- sum_list (row_terms2 imp (rows logits ! i) (rows levels ! i))))"
proof -
  have "loss_fn2 (example logits i) (example levels i) imp =
        Inr (torch_mean (map uminus (map2 (\<lambda>s v. sum_list (row_terms2 imp s v))
          (rows (example logits i)) (rows (example levels i)))))"
    using assms by (intro loss_fn2_rows example_wf) (simp_all add: example_def nrows_def)
  then show ?thesis
    by (simp add: example_def torch_mean_def)
qed

lemma loss_fn2_mean_of_examples:
  assumes wfL: "wf_tensor2 logits" and wfV: "wf_tensor2 levels"
    and nL: "nrows logits = n" and nV: "nrows levels = n"
    and nc: "ncols logits = ncols levels" and lw: "length imp = ncols logits"
  shows "\<exists>ls. length ls = n \<and>
           (\<forall>i<n. loss_fn2 (example logits i) (example levels i) imp = Inr (Fin (ls ! i))) \<and>
           loss_fn2 logits levels imp = Inr (torch_mean ls)"
proof -
  let ?ls = "map uminus (map2 (\<lambda>s v. sum_list (row_terms2 imp s v)) (rows logits) (rows levels))"
  have len: "length (rows logits) = n" "length (rows levels) = n"
    using nL nV by (simp_all add: nrows_def)
  then have "length ?ls = n"
    by simp
  moreover have "loss_fn2 (example logits i) (example levels i) imp = Inr (Fin (?ls ! i))" if "i < n" for i
    using loss_fn2_example [OF assms that] that len by simp
  moreover have "loss_fn2 logits levels imp = Inr (torch_mean ?ls)"
    using assms by (intro loss_fn2_rows) simp_all
  ultimately show ?thesis
    by blast
qed

lemma predicted_labels_example:
  assumes "i < nrows probas"
  shows "predicted_labels (example probas i) = [predicted_labels probas ! i]"
  using assms by (simp add: predicted_labels_count example_def nrows_def)

subsection \<open>Shapes under broadcasting\<close>

lemma length_expand:
  "length xs = n \<or> length xs = 1 \<Longrightarrow> length (expand n xs) = n"
  by (auto simp: expand_def split: list.splits)

lemma broadcast_dim_cases:
  assumes "broadcast_dim a b = Some n"
  shows "(a = n \<or> a = 1) \<and> (b = n \<or> b = 1)"
  using assms by (auto simp: broadcast_dim_def split: if_splits)

lemma broadcast2_Inr:
  assumes "broadcast_dim (nrows A) (nrows B) = Some n" "broadcast_dim (ncols A) (ncols B) = Some c"
  shows "\<exists>R. broadcast2 f A B = Inr R \<and> nrows R = n \<and> ncols R = c"
proof -
  have "length (expand n (rows A)) = n" "length (expand n (rows B)) = n"
    using broadcast_dim_cases [OF assms(1)] by (simp_all add: length_expand nrows_def)
  then show ?thesis
    using assms by (simp add: broadcast2_def nrows_def)
qed

lemma broadcast2_Inl:
  assumes "broadcast_dim (nrows A) (nrows B) = None \<or> broadcast_dim (ncols A) (ncols B) = None"
  shows "broadcast2 f A B = Inl RuntimeError"
  using assms by (auto simp: broadcast2_def split: option.splits)

lemma broadcast_dim_Some_same: "broadcast_dim a b = Some n \<Longrightarrow> broadcast_dim n n = Some n"
  by (simp add: broadcast_dim_def)

lemma loss_fn2_raises_iff:
  "loss_fn2 logits levels imp = Inl RuntimeError \<longleftrightarrow> \<not> broadcastable logits levels imp"
proof (cases "broadcast_dim (nrows logits) (nrows levels)")
  case None
  then have "t_mul (t_map logsigmoid logits) levels = Inl RuntimeError"
    unfolding t_mul_def by (intro broadcast2_Inl) simp
  then show ?thesis
    using None by (simp add: loss_fn2_def bind_err_def broadcastable_def)
next
  case (Some n)
  note n = this
  show ?thesis
  proof (cases "broadcast_dim (ncols logits) (ncols levels)")
    case None
    then have "t_mul (t_map logsigmoid logits) levels = Inl RuntimeError"
      unfolding t_mul_def by (intro broadcast2_Inl) simp
    then show ?thesis
      using n None by (simp add: loss_fn2_def bind_err_def broadcastable_def)
  next
    case (Some c)
    obtain a where a: "t_mul (t_map logsigmoid logits) levels = Inr a" "nrows a = n" "ncols a = c"
      unfolding t_mul_def using broadcast2_Inr [of "t_map logsigmoid logits" levels n c] n Some
      by auto
    obtain d where d: "t_sub (t_map logsigmoid logits) logits = Inr d"
      "nrows d = nrows logits" "ncols d = ncols logits"
      unfolding t_sub_def
      using broadcast2_Inr [of "t_map logsigmoid logits" logits "nrows logits" "ncols logits"]
      by (auto simp: broadcast_dim_same)
    obtain b where b: "t_mul d (t_map (\<lambda>l. 1 - l) levels) = Inr b" "nrows b = n" "ncols b = c"
      unfolding t_mul_def
      using broadcast2_Inr [of d "t_map (\<lambda>l. 1 - l) levels" n c] n Some d(2,3)
      by auto
    obtain s where s: "t_add a b = Inr s" "nrows s = n" "ncols s = c"
      unfolding t_add_def
      using broadcast2_Inr [of a b n c] a(2,3) b(2,3) by (auto simp: broadcast_dim_same)
    have row: "broadcast_dim (nrows s) (nrows (as_row imp)) = Some n"
      using s(2) by (simp add: as_row_def nrows_def broadcast_dim_def)
    show ?thesis
    proof (cases "broadcast_dim c (length imp)")
      case None
      then have "t_mul s (as_row imp) = Inl RuntimeError"
        unfolding t_mul_def using s(3) by (intro broadcast2_Inl) (simp add: as_row_def)
      then show ?thesis
        using n Some None a(1) d(1) b(1) s(1)
        by (simp add: loss_fn2_def bind_err_def broadcastable_def)
    next
      case (Some c')
      then obtain p where "t_mul s (as_row imp) = Inr p"
        unfolding t_mul_def
        using broadcast2_Inr [of s "as_row imp" n c'] row s(3) by (auto simp: as_row_def)
      then show ?thesis
        using n \<open>broadcast_dim (ncols logits) (ncols levels) = Some c\<close> Some a(1) d(1) b(1) s(1)
        by (simp add: loss_fn2_def bind_err_def broadcastable_def)
    qed
  qed
qed

lemma loss_fn1_raises_iff:
  "loss_fn1 logits levels imp = Inl RuntimeError \<longleftrightarrow> \<not> broadcastable logits levels imp"
proof (cases "broadcast_dim (nrows logits) (nrows levels)")
  case None
  then have "t_mul (t_map ln (t_map torch_sigmoid logits)) levels = Inl RuntimeError"
    unfolding t_mul_def by (intro broadcast2_Inl) simp
  then show ?thesis
    using None by (simp add: loss_fn1_def bind_err_def broadcastable_def)
next
  case (Some n)
  note n = this
  show ?thesis
  proof (cases "broadcast_dim (ncols logits) (ncols levels)")
    case None
    then have "t_mul (t_map ln (t_map torch_sigmoid logits)) levels = Inl RuntimeError"
      unfolding t_mul_def by (intro broadcast2_Inl) simp
    then show ?thesis
      using n None by (simp add: loss_fn1_def bind_err_def broadcastable_def)
  next
    case (Some c)
    obtain a where a: "t_mul (t_map ln (t_map torch_sigmoid logits)) levels = Inr a"
      "nrows a = n" "ncols a = c"
      unfolding t_mul_def
      using broadcast2_Inr [of "t_map ln (t_map torch_sigmoid logits)" levels n c] n Some
      by auto
    obtain b where b: "t_mul (t_map ln (t_map (\<lambda>p. 1 - p) (t_map torch_sigmoid logits)))
        (t_map (\<lambda>l. 1 - l) levels) = Inr b" "nrows b = n" "ncols b = c"
      unfolding t_mul_def
      using broadcast2_Inr [of "t_map ln (t_map (\<lambda>p. 1 - p) (t_map torch_sigmoid logits))"
          "t_map (\<lambda>l. 1 - l) levels" n c] n Some
      by auto
    obtain s where s: "t_add a b = Inr s" "nrows s = n" "ncols s = c"
      unfolding t_add_def
      using broadcast2_Inr [of a b n c] a(2,3) b(2,3) by (auto simp: broadcast_dim_same)
    have row: "broadcast_dim (nrows s) (nrows (as_row imp)) = Some n"
      using s(2) by (simp add: as_row_def nrows_def broadcast_dim_def)
    show ?thesis
    proof (cases "broadcast_dim c (length imp)")
      case None
      then have "t_mul s (as_row imp) = Inl RuntimeError"
        unfolding t_mul_def using s(3) by (intro broadcast2_Inl) (simp add: as_row_def)
      then show ?thesis
        using n Some None a(1) b(1) s(1)
        by (simp add: loss_fn1_def bind_err_def broadcastable_def)
    next
      case (Some c')
      then obtain p where "t_mul s (as_row imp) = Inr p"
        unfolding t_mul_def
        using broadcast2_Inr [of s "as_row imp" n c'] row s(3) by (auto simp: as_row_def)
      then show ?thesis
        using n \<open>broadcast_dim (ncols logits) (ncols levels) = Some c\<close> Some a(1) b(1) s(1)
        by (simp add: loss_fn1_def bind_err_def broadcastable_def)
    qed
  qed
qed

lemma broadcastable_uminus:
  "broadcastable logits levels (map uminus imp) = broadcastable logits levels imp"
  by (simp add: broadcastable_def split: option.splits)

lemma logsigmoid_0: "logsigmoid 0 = - ln 2"
  by (simp add: logsigmoid_alt)

subsection \<open>Rational bounds for the exponential and for \<open>softplus\<close>\<close>

lemma exp_taylor_lower:
  assumes "0 \<le> (x::real)"
  shows "(\<Sum>m<n. x ^ m / fact m) \<le> exp x"
proof -
  obtain t where "exp x = (\<Sum>m<n. x ^ m / fact m) + exp t / fact n * x ^ n"
    using Maclaurin_exp_le [of x n] by blast
  moreover have "0 \<le> exp t / fact n * x ^ n"
    using assms by simp
  ultimately show ?thesis by linarith
qed

lemma exp_taylor_upper:
  assumes "0 \<le> (x::real)" "x \<le> 3"
  shows "exp x \<le> (\<Sum>m<n. x ^ m / fact m) + 27 * x ^ n / fact n"
proof -
  obtain t where t: "\<bar>t\<bar> \<le> \<bar>x\<bar>" "exp x = (\<Sum>m<n. x ^ m / fact m) + exp t / fact n * x ^ n"
    using Maclaurin_exp_le [of x n] by blast
  have "exp t \<le> exp 3"
    using t(1) assms by simp
  also have "exp (3::real) = exp 1 ^ 3"
    by (metis exp_of_nat_mult mult.right_neutral of_nat_numeral)
  also have "\<dots> \<le> 3 ^ 3"
    using exp_le by (intro power_mono) simp_all
  finally have "exp t \<le> 27" by simp
  then have "exp t * (x ^ n / fact n) \<le> 27 * (x ^ n / fact n)"
    using assms(1) by (intro mult_right_mono) simp_all
  then show ?thesis
    using t(2) by (simp add: field_simps)
qed

lemma softplus_bounds:
  fixes a Alo Ahi L U :: real
  assumes a: "0 \<le> a" "a \<le> 3"
    and Alo: "0 < Alo" "Alo \<le> (\<Sum>m<n. a ^ m / fact m)"
    and Ahi: "(\<Sum>m<n. a ^ m / fact m) + 27 * a ^ n / fact n \<le> Ahi"
    and U: "0 \<le> U" "1 + 1 / Alo \<le> (\<Sum>m<k. U ^ m / fact m)"
    and L: "0 \<le> L" "L \<le> 3" "(\<Sum>m<k. L ^ m / fact m) + 27 * L ^ k / fact k \<le> 1 + 1 / Ahi"
  shows "L \<le> softplus (- a) \<and> softplus (- a) \<le> U"
proof -
  have lo: "Alo \<le> exp a"
    using Alo(2) exp_taylor_lower [OF a(1), of n] by linarith
  have hi: "exp a \<le> Ahi"
    using Ahi exp_taylor_upper [OF a, of n] by linarith
  have e: "exp (- a) = 1 / exp a"
    by (simp add: exp_minus inverse_eq_divide)
  have "1 / exp a \<le> 1 / Alo"
    using lo Alo(1) by (intro divide_left_mono) simp_all
  then have "1 + exp (- a) \<le> exp U"
    using U(2) exp_taylor_lower [OF U(1), of k] e by linarith
  moreover have "0 < 1 + exp (- a)"
    by (simp add: add_pos_pos)
  ultimately have "ln (1 + exp (- a)) \<le> ln (exp U)"
    by (subst ln_le_cancel_iff) simp_all
  then have up: "softplus (- a) \<le> U"
    by (simp add: softplus_def)
  have "0 < exp a" by simp
  moreover from this hi have "0 < Ahi" by linarith
  ultimately have "1 / Ahi \<le> 1 / exp a"
    using hi by (intro divide_left_mono) simp_all
  then have "exp L \<le> 1 + exp (- a)"
    using L(3) exp_taylor_upper [OF L(1,2), of k] e by linarith
  then have "L \<le> softplus (- a)"
    unfolding softplus_def by (subst ln_ge_iff) (simp_all add: add_pos_pos)
  with up show ?thesis by simp
qed

lemma softplus_m21_10:
  "231039 / 2000000 \<le> softplus (- (21 / 10)) \<and> softplus (- (21 / 10)) \<le> 288799 / 2500000"
proof (rule softplus_bounds [where n = 17 and k = 9 and Alo = "81661699 / 10000000" and Ahi = "816617 / 100000"])
  show "(81661699 / 10000000 :: real) \<le> (\<Sum>m<17. (21 / 10) ^ m / fact m)"
    by (simp add: lessThan_nat_numeral lessThan_Suc fact_numeral power_divide)
  show "(\<Sum>m<17. (21 / 10) ^ m / fact m) + 27 * (21 / 10) ^ 17 / fact 17 \<le> (816617 / 100000 :: real)"
    by (simp add: lessThan_nat_numeral lessThan_Suc fact_numeral power_divide)
  show "1 + 1 / (81661699 / 10000000) \<le> (\<Sum>m<9. (288799 / 2500000 :: real) ^ m / fact m)"
    by (simp add: lessThan_nat_numeral lessThan_Suc fact_numeral power_divide)
  show "(\<Sum>m<9. (231039 / 2000000) ^ m / fact m) + 27 * (231039 / 2000000) ^ 9 / fact 9 \<le> 1 + 1 / (816617 / 100000 :: real)"
    by (simp add: lessThan_nat_numeral lessThan_Suc fact_numeral power_divide)
qed simp_all

lemma softplus_m9_5:
  "95611 / 625000 \<le> softplus (- (9 / 5)) \<and> softplus (- (9 / 5)) \<le> 1529777 / 10000000"
proof (rule softplus_bounds [where n = 17 and k = 9 and Alo = "30248237 / 5000000" and Ahi = "2419859 / 400000"])
  show "(30248237 / 5000000 :: real) \<le> (\<Sum>m<17. (9 / 5) ^ m / fact m)"
    by (simp add: lessThan_nat_numeral lessThan_Suc fact_numeral power_divide)
  show "(\<Sum>m<17. (9 / 5) ^ m / fact m) + 27 * (9 / 5) ^ 17 / fact 17 \<le> (2419859 / 400000 :: real)"
    by (simp add: lessThan_nat_numeral lessThan_Suc fact_numeral power_divide)
  show "1 + 1 / (30248237 / 5000000) \<le> (\<Sum>m<9. (1529777 / 10000000 :: real) ^ m / fact m)"
    by (simp add: lessThan_nat_numeral lessThan_Suc fact_numeral power_divide)
  show "(\<Sum>m<9. (95611 / 625000) ^ m / fact m) + 27 * (95611 / 625000) ^ 9 / fact 9 \<le> 1 + 1 / (2419859 / 400000 :: real)"
    by (simp add: lessThan_nat_numeral lessThan_Suc fact_numeral power_divide)
qed simp_all

lemma softplus_m19_10:
  "1393867 / 10000000 \<le> softplus (- (19 / 10)) \<and> softplus (- (19 / 10)) \<le> 348467 / 2500000"
proof (rule softplus_bounds [where n = 17 and k = 9 and Alo = "1044671 / 156250" and Ahi = "13371789 / 2000000"])
  show "(1044671 / 156250 :: real) \<le> (\<Sum>m<17. (19 / 10) ^ m / fact m)"
    by (simp add: lessThan_nat_numeral lessThan_Suc fact_numeral power_divide)
  show "(\<Sum>m<17. (19 / 10) ^ m / fact m) + 27 * (19 / 10) ^ 17 / fact 17 \<le> (13371789 / 2000000 :: real)"
    by (simp add: lessThan_nat_numeral lessThan_Suc fact_numeral power_divide)
  show "1 + 1 / (1044671 / 156250) \<le> (\<Sum>m<9. (348467 / 2500000 :: real) ^ m / fact m)"
    by (simp add: lessThan_nat_numeral lessThan_Suc fact_numeral power_divide)
  show "(\<Sum>m<9. (1393867 / 10000000) ^ m / fact m) + 27 * (1393867 / 10000000) ^ 9 / fact 9 \<le> 1 + 1 / (13371789 / 2000000 :: real)"
    by (simp add: lessThan_nat_numeral lessThan_Suc fact_numeral power_divide)
qed simp_all

lemma softplus_m1_1:
  "391577 / 1250000 \<le> softplus (- (1)) \<and> softplus (- (1)) \<le> 3132617 / 10000000"
proof (rule softplus_bounds [where n = 17 and k = 9 and Alo = "13591409 / 5000000" and Ahi = "27182819 / 10000000"])
  show "(13591409 / 5000000 :: real) \<le> (\<Sum>m<17. (1) ^ m / fact m)"
    by (simp add: lessThan_nat_numeral lessThan_Suc fact_numeral power_divide)
  show "(\<Sum>m<17. (1) ^ m / fact m) + 27 * (1) ^ 17 / fact 17 \<le> (27182819 / 10000000 :: real)"
    by (simp add: lessThan_nat_numeral lessThan_Suc fact_numeral power_divide)
  show "1 + 1 / (13591409 / 5000000) \<le> (\<Sum>m<9. (3132617 / 10000000 :: real) ^ m / fact m)"
    by (simp add: lessThan_nat_numeral lessThan_Suc fact_numeral power_divide)
  show "(\<Sum>m<9. (391577 / 1250000) ^ m / fact m) + 27 * (391577 / 1250000) ^ 9 / fact 9 \<le> 1 + 1 / (27182819 / 10000000 :: real)"
    by (simp add: lessThan_nat_numeral lessThan_Suc fact_numeral power_divide)
qed simp_all

lemma softplus_m3_2:
  "503533 / 2500000 \<le> softplus (- (3 / 2)) \<and> softplus (- (3 / 2)) \<le> 2014133 / 10000000"
proof (rule softplus_bounds [where n = 17 and k = 9 and Alo = "4481689 / 1000000" and Ahi = "44816891 / 10000000"])
  show "(4481689 / 1000000 :: real) \<le> (\<Sum>m<17. (3 / 2) ^ m / fact m)"
    by (simp add: lessThan_nat_numeral lessThan_Suc fact_numeral power_divide)
  show "(\<Sum>m<17. (3 / 2) ^ m / fact m) + 27 * (3 / 2) ^ 17 / fact 17 \<le> (44816891 / 10000000 :: real)"
    by (simp add: lessThan_nat_numeral lessThan_Suc fact_numeral power_divide)
  show "1 + 1 / (4481689 / 1000000) \<le> (\<Sum>m<9. (2014133 / 10000000 :: real) ^ m / fact m)"
    by (simp add: lessThan_nat_numeral lessThan_Suc fact_numeral power_divide)
  show "(\<Sum>m<9. (503533 / 2500000) ^ m / fact m) + 27 * (503533 / 2500000) ^ 9 / fact 9 \<le> 1 + 1 / (44816891 / 10000000 :: real)"
    by (simp add: lessThan_nat_numeral lessThan_Suc fact_numeral power_divide)
qed simp_all

lemma softplus_m13_10:
  "602521 / 2500000 \<le> softplus (- (13 / 10)) \<and> softplus (- (13 / 10)) \<le> 482017 / 2000000"
proof (rule softplus_bounds [where n = 17 and k = 9 and Alo = "18346483 / 5000000" and Ahi = "36692967 / 10000000"])
  show "(18346483 / 5000000 :: real) \<le> (\<Sum>m<17. (13 / 10) ^ m / fact m)"
    by (simp add: lessThan_nat_numeral lessThan_Suc fact_numeral power_divide)
  show "(\<Sum>m<17. (13 / 10) ^ m / fact m) + 27 * (13 / 10) ^ 17 / fact 17 \<le> (36692967 / 10000000 :: real)"
    by (simp add: lessThan_nat_numeral lessThan_Suc fact_numeral power_divide)
  show "1 + 1 / (18346483 / 5000000) \<le> (\<Sum>m<9. (482017 / 2000000 :: real) ^ m / fact m)"
    by (simp add: lessThan_nat_numeral lessThan_Suc fact_numeral power_divide)
  show "(\<Sum>m<9. (602521 / 2500000) ^ m / fact m) + 27 * (602521 / 2500000) ^ 9 / fact 9 \<le> 1 + 1 / (36692967 / 10000000 :: real)"
    by (simp add: lessThan_nat_numeral lessThan_Suc fact_numeral power_divide)
qed simp_all

lemma softplus_m17_10:
  "83893 / 500000 \<le> softplus (- (17 / 10)) \<and> softplus (- (17 / 10)) \<le> 1677861 / 10000000"
proof (rule softplus_bounds [where n = 17 and k = 9 and Alo = "54739473 / 10000000" and Ahi = "27369737 / 5000000"])
  show "(54739473 / 10000000 :: real) \<le> (\<Sum>m<17. (17 / 10) ^ m / fact m)"
    by (simp add: lessThan_nat_numeral lessThan_Suc fact_numeral power_divide)
  show "(\<Sum>m<17. (17 / 10) ^ m / fact m) + 27 * (17 / 10) ^ 17 / fact 17 \<le> (27369737 / 5000000 :: real)"
    by (simp add: lessThan_nat_numeral lessThan_Suc fact_numeral power_divide)
  show "1 + 1 / (54739473 / 10000000) \<le> (\<Sum>m<9. (1677861 / 10000000 :: real) ^ m / fact m)"
    by (simp add: lessThan_nat_numeral lessThan_Suc fact_numeral power_divide)
  show "(\<Sum>m<9. (83893 / 500000) ^ m / fact m) + 27 * (83893 / 500000) ^ 9 / fact 9 \<le> 1 + 1 / (27369737 / 5000000 :: real)"
    by (simp add: lessThan_nat_numeral lessThan_Suc fact_numeral power_divide)
qed simp_all

lemma softplus_m8_5:
  "1839007 / 10000000 \<le> softplus (- (8 / 5)) \<and> softplus (- (8 / 5)) \<le> 57469 / 312500"
proof (rule softplus_bounds [where n = 17 and k = 9 and Alo = "12382581 / 2500000" and Ahi = "1981213 / 400000"])
  show "(12382581 / 2500000 :: real) \<le> (\<Sum>m<17. (8 / 5) ^ m / fact m)"
    by (simp add: lessThan_nat_numeral lessThan_Suc fact_numeral power_divide)
  show "(\<Sum>m<17. (8 / 5) ^ m / fact m) + 27 * (8 / 5) ^ 17 / fact 17 \<le> (1981213 / 400000 :: real)"
    by (simp add: lessThan_nat_numeral lessThan_Suc fact_numeral power_divide)
  show "1 + 1 / (12382581 / 2500000) \<le> (\<Sum>m<9. (57469 / 312500 :: real) ^ m / fact m)"
    by (simp add: lessThan_nat_numeral lessThan_Suc fact_numeral power_divide)
  show "(\<Sum>m<9. (1839007 / 10000000) ^ m / fact m) + 27 * (1839007 / 10000000) ^ 9 / fact 9 \<le> 1 + 1 / (1981213 / 400000 :: real)"
    by (simp add: lessThan_nat_numeral lessThan_Suc fact_numeral power_divide)
qed simp_all

subsection \<open>The loss of the example batch\<close>

lemma batch_levels_eq:
  "batch_levels = Inr \<lparr>ncols = 4, rows = [[1, 1, 0, 0], [1, 0, 0, 0], [1, 1, 1, 1]]\<rparr>"
  by (simp add: batch_levels_def torch_stack_def class_labels_def NUM_CLASSES_def
      label_to_levels_eq eval_nat_numeral)

lemma logsigmoid_pos_arg: "logsigmoid x = - softplus (- x)"
  by (simp add: logsigmoid_alt softplus_def)

lemma logsigmoid_neg_arg: "logsigmoid (- x) = - softplus (- x) - x"
proof -
  have pos: "0 < 1 + exp (- x)"
    by (simp add: add_pos_pos)
  have "1 + exp x = (1 + exp (- x)) / exp (- x)"
    by (simp add: exp_minus field_simps)
  moreover have "ln ((1 + exp (- x)) / exp (- x)) = ln (1 + exp (- x)) - ln (exp (- x))"
    by (rule ln_divide_pos) (simp_all add: pos)
  ultimately have "ln (1 + exp x) = ln (1 + exp (- x)) + x"
    by simp
  then show ?thesis
    using logsigmoid_alt [of "- x"] by (simp add: softplus_def)
qed

lemma batch_loss2:
  "loss_fn2 batch_logits \<lparr>ncols = 4, rows = [[1, 1, 0, 0], [1, 0, 0, 0], [1, 1, 1, 1]]\<rparr>
     importance_weights =
   Inr (Fin ((2 * softplus (- (21 / 10)) + 3 * softplus (- (9 / 5)) + 2 * softplus (- (19 / 10)) +
             softplus (- 1) + softplus (- (3 / 2)) + softplus (- (13 / 10)) +
             softplus (- (17 / 10)) + softplus (- (8 / 5))) / 3))"
proof -
  let ?V = "\<lparr>ncols = 4, rows = [[1, 1, 0, 0], [1, 0, 0, 0], [1, 1, 1, 1 :: real]]\<rparr>"
  have w: "importance_weights = [1, 1, 1, 1]"
    by (simp add: importance_weights_def NUM_CLASSES_def eval_nat_numeral)
  have r1: "sum_list (row_terms2 [1, 1, 1, 1] [21 / 10, 18 / 10, - (21 / 10), - (18 / 10)] [1, 1, 0, 0]) =
      - (2 * softplus (- (21 / 10)) + 2 * softplus (- (9 / 5)))"
    by (simp add: row_terms2_def logsigmoid_neg_arg logsigmoid_pos_arg [of "21 / 10"]
        logsigmoid_pos_arg [of "9 / 5"])
  have r2: "sum_list (row_terms2 [1, 1, 1, 1] [19 / 10, - 1, - (15 / 10), - (13 / 10)] [1, 0, 0, 0]) =
      - (softplus (- (19 / 10)) + softplus (- 1) + softplus (- (3 / 2)) + softplus (- (13 / 10)))"
    by (simp add: row_terms2_def logsigmoid_neg_arg logsigmoid_pos_arg [of "19 / 10"])
  have r3: "sum_list (row_terms2 [1, 1, 1, 1] [19 / 10, 18 / 10, 17 / 10, 16 / 10] [1, 1, 1, 1]) =
      - (softplus (- (19 / 10)) + softplus (- (9 / 5)) + softplus (- (17 / 10)) + softplus (- (8 / 5)))"
    by (simp add: row_terms2_def logsigmoid_pos_arg [of "19 / 10"] logsigmoid_pos_arg [of "9 / 5"]
        logsigmoid_pos_arg [of "17 / 10"] logsigmoid_pos_arg [of "8 / 5"])
  have "loss_fn2 batch_logits ?V importance_weights =
        Inr (torch_mean (map uminus (map2 (\<lambda>s v. sum_list (row_terms2 importance_weights s v))
          (rows batch_logits) (rows ?V))))"
    by (rule loss_fn2_rows) (simp_all add: batch_logits_def w wf_tensor2_def nrows_def)
  also have "map uminus (map2 (\<lambda>s v. sum_list (row_terms2 importance_weights s v))
          (rows batch_logits) (rows ?V)) =
      [2 * softplus (- (21 / 10)) + 2 * softplus (- (9 / 5)),
       softplus (- (19 / 10)) + softplus (- 1) + softplus (- (3 / 2)) + softplus (- (13 / 10)),
       softplus (- (19 / 10)) + softplus (- (9 / 5)) + softplus (- (17 / 10)) + softplus (- (8 / 5))]"
    unfolding w batch_logits_def using r1 r2 r3 by simp
  finally show ?thesis
    by (simp add: torch_mean_def)
qed

subsection \<open>Rounding to float32\<close>

lemma pow2_powr: "pow2 e = 2 powr (of_int e)"
  by (simp add: pow2_def powr_int)

lemma pow2_pos: "0 < pow2 e"
  by (simp add: pow2_def)

lemma pow2_add: "pow2 (a + b) = pow2 a * pow2 b"
  by (simp add: pow2_powr powr_add)

lemma floor_log2_eq:
  assumes "pow2 e \<le> y" "y < pow2 (e + 1)"
  shows "\<lfloor>log 2 y\<rfloor> = e"
proof -
  have "0 < y"
    using assms(1) pow2_pos [of e] by linarith
  then show ?thesis
    using assms by (subst floor_log_eq_powr_iff) (simp_all add: pow2_powr)
qed

lemma round_even_err: "\<bar>of_int (round_even y) - y\<bar> \<le> 1 / 2"
  unfolding round_even_def Let_def by (auto simp: abs_le_iff)

lemma round_even_near:
  assumes "\<bar>y - of_int m\<bar> < 1 / 2"
  shows "round_even y = m"
proof -
  have fl: "of_int \<lfloor>y\<rfloor> \<le> y" "y < of_int \<lfloor>y\<rfloor> + 1"
    by linarith+
  have y: "of_int m - 1 / 2 < y" "y < of_int m + 1 / 2"
    using assms by linarith+
  have "real_of_int \<lfloor>y\<rfloor> < real_of_int m + 1" "real_of_int m - 2 < real_of_int \<lfloor>y\<rfloor>"
    using fl y by linarith+
  then have "\<lfloor>y\<rfloor> < m + 1" "m - 2 < \<lfloor>y\<rfloor>"
    by linarith+
  then consider "\<lfloor>y\<rfloor> = m" | "\<lfloor>y\<rfloor> = m - 1"
    by linarith
  then show ?thesis
  proof cases
    case 1
    then have "y - of_int \<lfloor>y\<rfloor> < 1 / 2"
      using y by simp
    then show ?thesis
      using 1 by (simp add: round_even_def Let_def)
  next
    case 2
    then have "1 / 2 < y - of_int \<lfloor>y\<rfloor>"
      using y by simp
    then show ?thesis
      using 2 by (simp add: round_even_def Let_def)
  qed
qed

lemma f32_binade:
  assumes "pow2 e \<le> \<bar>x\<bar>" "\<bar>x\<bar> < pow2 (e + 1)" "- 126 \<le> e"
  shows "f32 x = of_int (round_even (x / pow2 (e - 23))) * pow2 (e - 23)"
proof -
  have "x \<noteq> 0"
    using assms(1) pow2_pos [of e] by auto
  moreover have "\<lfloor>log 2 \<bar>x\<bar>\<rfloor> = e"
    using assms(1,2) by (rule floor_log2_eq)
  ultimately show ?thesis
    using assms(3) by (simp add: f32_def Let_def max_def)
qed

lemma f32_near:
  assumes "pow2 e \<le> \<bar>x\<bar>" "\<bar>x\<bar> < pow2 (e + 1)" "- 126 \<le> e"
    and "\<bar>x / pow2 (e - 23) - of_int m\<bar> < 1 / 2"
  shows "f32 x = of_int m * pow2 (e - 23)"
  using f32_binade [OF assms(1-3)] round_even_near [OF assms(4)] by simp

lemma f32_err:
  assumes "pow2 e \<le> \<bar>x\<bar>" "\<bar>x\<bar> < pow2 (e + 1)" "- 126 \<le> e"
  shows "\<bar>f32 x - x\<bar> \<le> pow2 (e - 24)"
proof -
  let ?q = "pow2 (e - 23)"
  have q: "0 < ?q" by (rule pow2_pos)
  have "f32 x - x = (of_int (round_even (x / ?q)) - x / ?q) * ?q"
    using f32_binade [OF assms] q by (simp add: field_simps)
  then have "\<bar>f32 x - x\<bar> = \<bar>of_int (round_even (x / ?q)) - x / ?q\<bar> * ?q"
    using q by (simp add: abs_mult)
  also have "\<dots> \<le> 1 / 2 * ?q"
    using round_even_err [of "x / ?q"] q by (intro mult_right_mono) simp_all
  also have "1 / 2 * ?q = pow2 (e - 24)"
    using pow2_add [of "e - 24" 1] by (simp add: pow2_def)
  finally show ?thesis .
qed

lemma f32_0: "f32 0 = 0"
  by (simp add: f32_def)

lemma f32_exact:
  assumes "pow2 e \<le> \<bar>x\<bar>" "\<bar>x\<bar> < pow2 (e + 1)" "- 126 \<le> e"
    and "x = of_int m * pow2 (e - 23)"
  shows "f32 x = x"
proof -
  have "x / pow2 (e - 23) = of_int m"
    using assms(4) pow2_pos [of "e - 23"] by simp
  then have "f32 x = of_int m * pow2 (e - 23)"
    using assms(1-3) by (intro f32_near) simp_all
  then show ?thesis
    using assms(4) by simp
qed

lemma f32_1: "f32 1 = 1"
  by (rule f32_exact [where e = 0 and m = 8388608]) (simp_all add: pow2_def)

lemma f32_16: "f32 16 = 16"
  by (rule f32_exact [where e = 4 and m = 8388608]) (simp_all add: pow2_def)

lemma f32_m16: "f32 (- 16) = - 16"
  by (rule f32_exact [where e = 4 and m = "- 8388608"]) (simp_all add: pow2_def)

lemma f32_20: "f32 20 = 20"
  by (rule f32_exact [where e = 4 and m = 10485760]) (simp_all add: pow2_def)

lemma f32_m20: "f32 (- 20) = - 20"
  by (rule f32_exact [where e = 4 and m = "- 10485760"]) (simp_all add: pow2_def)

lemma f32_40: "f32 40 = 40"
  by (rule f32_exact [where e = 5 and m = 10485760]) (simp_all add: pow2_def)

lemma f32_2p29: "f32 536870912 = 536870912"
  by (rule f32_exact [where e = 29 and m = 8388608]) (simp_all add: pow2_def)

lemma f32_m2p29: "f32 (- 536870912) = - 536870912"
  by (rule f32_exact [where e = 29 and m = "- 8388608"]) (simp_all add: pow2_def)

lemma f32_2p29_20: "f32 536870932 = 536870912"
proof -
  have "f32 536870932 = of_int 8388608 * pow2 (29 - 23)"
    by (rule f32_near) (simp_all add: pow2_def)
  then show ?thesis by (simp add: pow2_def)
qed

lemma f32_2p29_40: "f32 536870952 = 536870976"
proof -
  have "f32 536870952 = of_int 8388609 * pow2 (29 - 23)"
    by (rule f32_near) (simp_all add: pow2_def)
  then show ?thesis by (simp add: pow2_def)
qed

lemma f32_third_a: "f32 (536870912 / 3) = 178956976"
proof -
  have "f32 (536870912 / 3) = of_int 11184811 * pow2 (27 - 23)"
    by (rule f32_near) (simp_all add: pow2_def)
  then show ?thesis by (simp add: pow2_def)
qed

lemma f32_third_b: "f32 178956992 = 178956992"
  by (rule f32_exact [where e = 27 and m = 11184812]) (simp_all add: pow2_def)

lemma exp_1_bounds: "2718 / 1000 \<le> exp (1::real) \<and> exp (1::real) \<le> 27186 / 10000"
proof -
  have "(2718 / 1000 :: real) \<le> (\<Sum>m<7. 1 ^ m / fact m)"
    by (simp add: lessThan_nat_numeral lessThan_Suc fact_numeral)
  moreover have "(\<Sum>m<9. 1 ^ m / fact m) + 27 * 1 ^ 9 / fact 9 \<le> (27186 / 10000 :: real)"
    by (simp add: lessThan_nat_numeral lessThan_Suc fact_numeral)
  ultimately show ?thesis
    using exp_taylor_lower [of 1 7] exp_taylor_upper [of 1 9] by simp
qed

lemma exp_16_bounds: "8388609 \<le> exp (16::real) \<and> exp (16::real) \<le> 11184809"
proof -
  have e: "exp (16::real) = exp 1 ^ 16"
    using exp_of_nat_mult [of 16 "1::real"] by simp
  have "(2718 / 1000 :: real) ^ 16 \<le> exp 1 ^ 16"
    using exp_1_bounds by (intro power_mono) simp_all
  moreover have "exp (1::real) ^ 16 \<le> (27186 / 10000) ^ 16"
    using exp_1_bounds by (intro power_mono) simp_all
  moreover have "(8388609 :: real) \<le> (2718 / 1000) ^ 16"
    by (simp add: power_divide)
  moreover have "(27186 / 10000 :: real) ^ 16 \<le> 11184809"
    by (simp add: power_divide)
  ultimately show ?thesis
    unfolding e by linarith
qed

lemma exp_20_lower: "1048577 \<le> exp (20::real)"
proof -
  have e: "exp (20::real) = exp 1 ^ 20"
    using exp_of_nat_mult [of 20 "1::real"] by simp
  have "(2718 / 1000 :: real) ^ 20 \<le> exp 1 ^ 20"
    using exp_1_bounds by (intro power_mono) simp_all
  moreover have "(1048577 :: real) \<le> (2718 / 1000) ^ 20"
    by (simp add: power_divide)
  ultimately show ?thesis
    unfolding e by linarith
qed

lemma ln_2_bounds: "693 / 1000 \<le> ln (2::real) \<and> ln (2::real) \<le> 6935 / 10000"
proof -
  have "(\<Sum>m<10. (693 / 1000) ^ m / fact m) + 27 * (693 / 1000) ^ 10 / fact 10 \<le> (2 :: real)"
    by (simp add: lessThan_nat_numeral lessThan_Suc fact_numeral power_divide)
  then have "exp (693 / 1000 :: real) \<le> 2"
    using exp_taylor_upper [of "693 / 1000" 10] by simp
  then have lo: "693 / 1000 \<le> ln (2::real)"
    by (subst ln_ge_iff) simp_all
  have "(2 :: real) \<le> (\<Sum>m<10. (6935 / 10000) ^ m / fact m)"
    by (simp add: lessThan_nat_numeral lessThan_Suc fact_numeral power_divide)
  then have "(2::real) \<le> exp (6935 / 10000)"
    using exp_taylor_lower [of "6935 / 10000" 10] by simp
  then have "ln (2::real) \<le> ln (exp (6935 / 10000))"
    by (subst ln_le_cancel_iff) simp_all
  with lo show ?thesis by simp
qed

lemma exp_m16_bounds: "1 / 11184809 \<le> exp (- 16 :: real) \<and> exp (- 16 :: real) \<le> 1 / 8388609"
proof -
  have E: "8388609 \<le> exp (16::real)" "exp (16::real) \<le> 11184809"
    using exp_16_bounds by simp_all
  have w: "exp (- 16 :: real) = 1 / exp 16"
    by (simp add: exp_minus inverse_eq_divide)
  have "1 / 11184809 \<le> 1 / exp (16::real)"
    using E by (intro divide_left_mono) simp_all
  moreover have "1 / exp (16::real) \<le> 1 / 8388609"
    using E by (intro divide_left_mono) simp_all
  ultimately show ?thesis
    by (simp only: w)
qed

lemma sigmoid_f32_16: "sigmoid_f32 16 = 8388607 / 8388608"
proof -
  let ?w = "exp (- 16 :: real)"
  have w: "1 / 11184809 \<le> ?w" "?w \<le> 1 / 8388609"
    using exp_m16_bounds by simp_all
  have "\<bar>f32 ?w - ?w\<bar> \<le> pow2 (- 24 - 24)"
    using w by (intro f32_err) (simp_all add: pow2_def)
  then have "\<bar>f32 ?w - ?w\<bar> \<le> 1 / 281474976710656"
    by (simp add: pow2_def)
  then have w': "1 / 11184810 \<le> exp_f32 (- 16)" "exp_f32 (- 16) \<le> 1 / 8388608"
    unfolding exp_f32_def using w by linarith+
  have "f32 (1 + exp_f32 (- 16)) = of_int 8388609 * pow2 (0 - 23)"
    using w' by (intro f32_near) (simp_all add: pow2_def abs_less_iff)
  then have s: "fadd 1 (exp_f32 (- 16)) = 8388609 / 8388608"
    by (simp add: fadd_def pow2_def)
  have "f32 (1 / (8388609 / 8388608)) = of_int 16777214 * pow2 (- 1 - 23)"
    by (rule f32_near) (simp_all add: pow2_def)
  then show ?thesis
    by (simp add: sigmoid_f32_def fdiv_def s pow2_def)
qed

lemma f32_2m23: "f32 (1 / 8388608) = 1 / 8388608"
  by (rule f32_exact [where e = "- 23" and m = 8388608]) (simp_all add: pow2_def)

lemma f32_band_neg:
  assumes "- (1599 / 100) \<le> x" "x \<le> - (159 / 10)"
  shows "x - 1 / 1000000 \<le> f32 x \<and> f32 x \<le> x + 1 / 1000000"
proof -
  have "\<bar>f32 x - x\<bar> \<le> pow2 (3 - 24)"
    using assms by (intro f32_err) (simp_all add: pow2_def)
  then have "\<bar>f32 x - x\<bar> \<le> 1 / 2097152"
    by (simp add: pow2_def)
  then show ?thesis
    by linarith
qed

lemma f32_band_pos:
  assumes "159 / 10 \<le> x" "x \<le> 1599 / 100"
  shows "x - 1 / 1000000 \<le> f32 x \<and> f32 x \<le> x + 1 / 1000000"
proof -
  have "\<bar>f32 x - x\<bar> \<le> pow2 (3 - 24)"
    using assms by (intro f32_err) (simp_all add: pow2_def)
  then have "\<bar>f32 x - x\<bar> \<le> 1 / 2097152"
    by (simp add: pow2_def)
  then show ?thesis
    by linarith
qed

lemma ln_2m23_bounds:
  "- (15951 / 1000) \<le> ln (1 / 8388608 :: real) \<and> ln (1 / 8388608 :: real) \<le> - (15939 / 1000)"
proof -
  have "(8388608 :: real) = 2 ^ 23"
    by simp
  then have "ln (8388608 :: real) = 23 * ln 2"
    by (simp only: ln_realpow)
  then have "ln (1 / 8388608 :: real) = - (23 * ln 2)"
    by (simp add: ln_div)
  then show ?thesis
    using ln_2_bounds by simp
qed

lemma loss_fn1_f32_at_16:
  "\<exists>r. loss_fn1_f32 \<lparr>ncols = 1, rows = [[16]]\<rparr> \<lparr>ncols = 1, rows = [[0]]\<rparr> [1] = Inr (Fin r) \<and>
       159 / 10 < r \<and> r < 1596 / 100"
proof -
  define t1 where "t1 = log_f32 (1 / 8388608)"
  define t2 where "t2 = f32 t1"
  define t3 where "t3 = f32 t2"
  define t4 where "t4 = f32 t3"
  define t5 where "t5 = f32 t4"
  define t6 where "t6 = f32 (- t5)"
  define t7 where "t7 = f32 t6"
  have b1: "- (15952 / 1000) \<le> t1" "t1 \<le> - (15938 / 1000)"
    using f32_band_neg [of "ln (1 / 8388608)"] ln_2m23_bounds
    by (simp_all add: t1_def log_f32_def)
  have b2: "- (15953 / 1000) \<le> t2" "t2 \<le> - (15937 / 1000)"
    using f32_band_neg [of t1] b1 by (simp_all add: t2_def)
  have b3: "- (15954 / 1000) \<le> t3" "t3 \<le> - (15936 / 1000)"
    using f32_band_neg [of t2] b2 by (simp_all add: t3_def)
  have b4: "- (15955 / 1000) \<le> t4" "t4 \<le> - (15935 / 1000)"
    using f32_band_neg [of t3] b3 by (simp_all add: t4_def)
  have b5: "- (15956 / 1000) \<le> t5" "t5 \<le> - (15934 / 1000)"
    using f32_band_neg [of t4] b4 by (simp_all add: t5_def)
  have b6: "15933 / 1000 \<le> t6" "t6 \<le> 15957 / 1000"
    using f32_band_pos [of "- t5"] b5 by (simp_all add: t6_def)
  have b7: "15932 / 1000 \<le> t7" "t7 \<le> 15958 / 1000"
    using f32_band_pos [of t6] b6 by (simp_all add: t7_def)
  have "loss_fn1_f32 \<lparr>ncols = 1, rows = [[16]]\<rparr> \<lparr>ncols = 1, rows = [[0]]\<rparr> [1] = Inr (Fin t7)"
    by (simp add: loss_fn1_f32_def broadcast2_def broadcast_dim_def nrows_def expand_def as_row_def
      t_map_def bind_err_def torch_sum_dim1_f32_def torch_mean_f32_def sum_f32_def
      fadd_def fsub_def fmul_def fdiv_def sigmoid_f32_16 f32_0 f32_1 f32_2m23
      t7_def t6_def t5_def t4_def t3_def t2_def t1_def)
  then show ?thesis
    using b7 by auto
qed

lemma logsigmoid_16_bounds:
  "- (1 / 8388608) < logsigmoid 16 \<and> logsigmoid 16 \<le> - (1 / 16777216)"
proof -
  let ?w = "exp (- 16 :: real)"
  have E: "8388609 \<le> exp (16::real)" "exp (16::real) \<le> 11184809"
    using exp_16_bounds by simp_all
  have w: "?w = 1 / exp 16"
    by (simp add: exp_minus inverse_eq_divide)
  have wlo: "1 / 11184809 \<le> ?w"
    unfolding w using E by (intro divide_left_mono) simp_all
  have whi: "?w \<le> 1 / 8388609"
    unfolding w using E by (intro divide_left_mono) simp_all
  have "ln (1 + ?w) \<le> ?w"
    by (rule ln_add_one_self_le_self) simp
  then have up: "ln (1 + ?w) < 1 / 8388608"
    using whi by simp
  have "?w - ?w\<^sup>2 \<le> ln (1 + ?w)"
    using whi by (intro ln_one_plus_pos_lower_bound) simp_all
  moreover have "1 / 11184809 * (1 - 1 / 8388609) \<le> ?w * (1 - ?w)"
    using wlo whi by (intro mult_mono) simp_all
  moreover have "?w * (1 - ?w) = ?w - ?w\<^sup>2"
    by (simp add: power2_eq_square algebra_simps)
  ultimately have "1 / 16777216 \<le> ln (1 + ?w)"
    by simp
  with up show ?thesis
    by (simp add: logsigmoid_alt)
qed

lemma logsigmoid_f32_16_sub: "f32 (logsigmoid_f32 16 - 16) = - 16"
proof -
  let ?x = "logsigmoid 16"
  let ?u = "logsigmoid_f32 16"
  have x: "- (1 / 8388608) < ?x" "?x \<le> - (1 / 16777216)"
    using logsigmoid_16_bounds by simp_all
  have "\<bar>f32 ?x - ?x\<bar> \<le> pow2 (- 24 - 24)"
    using x by (intro f32_err) (simp_all add: pow2_def)
  then have "\<bar>f32 ?x - ?x\<bar> \<le> 1 / 281474976710656"
    by (simp add: pow2_def)
  then have u: "- (1 / 4194304) < ?u" "?u < 0"
    unfolding logsigmoid_f32_def using x by linarith+
  have "f32 (?u - 16) = of_int (- 8388608) * pow2 (4 - 23)"
    using u by (intro f32_near) (simp_all add: pow2_def abs_less_iff)
  then show ?thesis
    by (simp add: pow2_def)
qed

lemma loss_fn2_f32_at_16:
  "loss_fn2_f32 \<lparr>ncols = 1, rows = [[16]]\<rparr> \<lparr>ncols = 1, rows = [[0]]\<rparr> [1] = Inr (Fin 16)"
  by (simp add: loss_fn2_f32_def broadcast2_def broadcast_dim_def nrows_def expand_def as_row_def
      t_map_def bind_err_def torch_sum_dim1_f32_def torch_mean_f32_def sum_f32_def
      fadd_def fsub_def fmul_def fdiv_def f32_0 f32_1 f32_16 f32_m16 logsigmoid_f32_16_sub)

lemma logsigmoid_neg_arg_bounds:
  assumes "0 < x"
  shows "- x - exp (- x) \<le> logsigmoid (- x) \<and> logsigmoid (- x) < - x"
proof -
  have "0 < ln (1 + exp (- x))"
    by (rule ln_gt_zero) simp
  moreover have "ln (1 + exp (- x)) \<le> exp (- x)"
    by (rule ln_add_one_self_le_self) simp
  ultimately show ?thesis
    by (simp add: logsigmoid_neg_arg softplus_def)
qed

lemma logsigmoid_f32_m20: "logsigmoid_f32 (- 20) = - 20"
proof -
  have "exp (- 20 :: real) = 1 / exp 20"
    by (simp add: exp_minus inverse_eq_divide)
  also have "\<dots> \<le> 1 / 1048577"
    using exp_20_lower by (intro divide_left_mono) simp_all
  finally have "exp (- 20 :: real) \<le> 1 / 1048577" .
  then have x: "- 20 - 1 / 1048577 \<le> logsigmoid (- 20)" "logsigmoid (- 20) < - 20"
    using logsigmoid_neg_arg_bounds [of 20] by simp_all
  have "f32 (logsigmoid (- 20)) = of_int (- 10485760) * pow2 (4 - 23)"
    using x by (intro f32_near) (simp_all add: pow2_def abs_less_iff)
  then show ?thesis
    by (simp add: logsigmoid_f32_def pow2_def)
qed

lemma logsigmoid_f32_m2p29: "logsigmoid_f32 (- 536870912) = - 536870912"
proof -
  have "exp (- 536870912 :: real) < 1"
    by simp
  moreover have "- 536870912 - exp (- 536870912) \<le> logsigmoid (- 536870912)"
    "logsigmoid (- 536870912) < - 536870912"
    using logsigmoid_neg_arg_bounds [of 536870912] by simp_all
  ultimately have x: "- 536870912 - 1 < logsigmoid (- 536870912)"
    "logsigmoid (- 536870912) < - 536870912"
    by linarith+
  have "f32 (logsigmoid (- 536870912)) = of_int (- 8388608) * pow2 (29 - 23)"
    using x by (intro f32_near) (simp_all add: pow2_def abs_less_iff)
  then show ?thesis
    by (simp add: logsigmoid_f32_def pow2_def)
qed

lemma loss_fn2_f32_order_a:
  "loss_fn2_f32 \<lparr>ncols = 1, rows = [[- 536870912], [- 20], [- 20]]\<rparr>
     \<lparr>ncols = 1, rows = [[1], [1], [1]]\<rparr> [1] = Inr (Fin 178956976)"
  by (simp add: loss_fn2_f32_def broadcast2_def broadcast_dim_def nrows_def expand_def as_row_def
      t_map_def bind_err_def torch_sum_dim1_f32_def torch_mean_f32_def sum_f32_def
      fadd_def fsub_def fmul_def fdiv_def f32_0 f32_1 f32_20 f32_m20 f32_40 f32_2p29 f32_m2p29
      f32_2p29_20 f32_2p29_40 f32_third_a f32_third_b logsigmoid_f32_m20 logsigmoid_f32_m2p29
      numeral_3_eq_3)

lemma loss_fn2_f32_order_b:
  "loss_fn2_f32 (permute_rows [1, 2, 0] \<lparr>ncols = 1, rows = [[- 536870912], [- 20], [- 20]]\<rparr>)
     (permute_rows [1, 2, 0] \<lparr>ncols = 1, rows = [[1], [1], [1]]\<rparr>) [1] = Inr (Fin 178956992)"
  by (simp add: permute_rows_def permute_def
      loss_fn2_f32_def broadcast2_def broadcast_dim_def nrows_def expand_def as_row_def
      t_map_def bind_err_def torch_sum_dim1_f32_def torch_mean_f32_def sum_f32_def
      fadd_def fsub_def fmul_def fdiv_def f32_0 f32_1 f32_20 f32_m20 f32_40 f32_2p29 f32_m2p29
      f32_2p29_20 f32_2p29_40 f32_third_a f32_third_b logsigmoid_f32_m20 logsigmoid_f32_m2p29
      numeral_3_eq_3)

section \<open>The claims\<close>

subsection \<open>The stable rank loss computes the specified formula\<close>

text \<open>
  Claim C1. For score and threshold matrices of one shape \<open>B \<times> (K-1)\<close> and a weight
  vector of length \<open>K-1\<close>, \<open>loss_fn2\<close> raises nothing and returns the negated mean
  over the batch of the per-example sums of the weighted contributions: the sum runs
  over the threshold dimension, the mean over the batch dimension. (For a batch with no
  example both sides are \<open>nan\<close>.) Neither the 0/1 values of the thresholds nor the sign
  of the weights is needed for this.
\<close>

theorem loss_fn2_spec:
  assumes "wf_tensor2 logits" "wf_tensor2 levels" "nrows logits = nrows levels"
    "ncols logits = ncols levels" "length imp = ncols logits"
  shows "loss_fn2 logits levels imp = Inr (spec_rank_loss (rows logits) (rows levels) imp)"
proof -
  have "map2 (\<lambda>s v. sum_list (row_terms2 imp s v)) (rows logits) (rows levels) =
        map2 (\<lambda>s v. \<Sum>i\<leftarrow>[0..<length imp]. contribution imp s v i) (rows logits) (rows levels)"
  proof (rule map2_rows_cong)
    fix s v :: "real list"
    assume "length s = ncols logits" "length v = ncols levels"
    with assms(4,5) have "length s = length imp" "length v = length imp"
      by simp_all
    then show "sum_list (row_terms2 imp s v) = (\<Sum>i\<leftarrow>[0..<length imp]. contribution imp s v i)"
      by (simp only: row_terms2_nth)
  qed (rule assms)+
  then show ?thesis
    using loss_fn2_rows [OF assms] by (simp only: spec_rank_loss_def torch_mean_uminus)
qed

theorem loss_fn2_spec_witness:
  "wf_tensor2 \<lparr>ncols = 2, rows = [[0, 3], [1, - 2]]\<rparr> \<and>
   wf_tensor2 \<lparr>ncols = 2, rows = [[1, 0], [1, 1]]\<rparr> \<and>
   nrows \<lparr>ncols = 2, rows = [[0, 3], [1, - 2]]\<rparr> = nrows \<lparr>ncols = 2, rows = [[1, 0], [1, 1]]\<rparr> \<and>
   ncols \<lparr>ncols = 2, rows = [[0, 3], [1, - 2]]\<rparr> = ncols \<lparr>ncols = 2, rows = [[1, 0], [1, 1]]\<rparr> \<and>
   length [1, 2 :: real] = ncols \<lparr>ncols = 2, rows = [[0, 3], [1, - 2]]\<rparr> \<and>
   loss_fn2 \<lparr>ncols = 2, rows = [[0, 3], [1, - 2]]\<rparr> \<lparr>ncols = 2, rows = [[1, 0], [1, 1]]\<rparr> [1, 2] =
     Inr (spec_rank_loss [[0, 3], [1, - 2]] [[1, 0], [1, 1]] [1, 2])"
  using loss_fn2_spec [of "\<lparr>ncols = 2, rows = [[0, 3], [1, - 2]]\<rparr>"
      "\<lparr>ncols = 2, rows = [[1, 0], [1, 1]]\<rparr>" "[1, 2]"]
  by (simp add: wf_tensor2_def nrows_def)

subsection \<open>The naive and the stable loss\<close>

text \<open>
  Claim C2 says that the naive loss \<open>loss_fn1\<close> and the stable loss \<open>loss_fn2\<close> return
  the same scalar whenever every \<open>sigmoid(s[i])\<close> lies strictly between 0 and 1. In
  float32 they do not. Take one example with score 16, threshold 0 and weight 1:
  \<open>sigmoid(16)\<close> comes out as \<open>1 - 2^-23\<close>, strictly inside \<open>(0, 1)\<close>, so
  \<open>1 - sigmoid(16)\<close> is \<open>2^-23\<close> and the naive loss is the rounded \<open>-log(2^-23)\<close>, about
  15.94, while the stable loss \<open>-(logsigmoid(16) - 16)\<close> rounds to exactly 16.
\<close>

theorem loss_fn1_f32_differs:
  "0 < sigmoid_f32 16 \<and> sigmoid_f32 16 < 1 \<and>
   loss_fn2_f32 \<lparr>ncols = 1, rows = [[16]]\<rparr> \<lparr>ncols = 1, rows = [[0]]\<rparr> [1] = Inr (Fin 16) \<and>
   loss_fn1_f32 \<lparr>ncols = 1, rows = [[16]]\<rparr> \<lparr>ncols = 1, rows = [[0]]\<rparr> [1] \<noteq>
   loss_fn2_f32 \<lparr>ncols = 1, rows = [[16]]\<rparr> \<lparr>ncols = 1, rows = [[0]]\<rparr> [1]"
proof -
  obtain r where r: "loss_fn1_f32 \<lparr>ncols = 1, rows = [[16]]\<rparr> \<lparr>ncols = 1, rows = [[0]]\<rparr> [1] =
      Inr (Fin r)" "r < 1596 / 100"
    using loss_fn1_f32_at_16 by blast
  have l2: "loss_fn2_f32 \<lparr>ncols = 1, rows = [[16]]\<rparr> \<lparr>ncols = 1, rows = [[0]]\<rparr> [1] =
      Inr (Fin 16)"
    by (rule loss_fn2_f32_at_16)
  have ne: "loss_fn1_f32 \<lparr>ncols = 1, rows = [[16]]\<rparr> \<lparr>ncols = 1, rows = [[0]]\<rparr> [1] \<noteq>
      loss_fn2_f32 \<lparr>ncols = 1, rows = [[16]]\<rparr> \<lparr>ncols = 1, rows = [[0]]\<rparr> [1]"
    unfolding r(1) l2 using r(2) by simp
  have "0 < sigmoid_f32 16 \<and> sigmoid_f32 16 < 1"
    by (simp add: sigmoid_f32_16)
  with l2 ne show ?thesis
    by blast
qed

text \<open>
  Claim C2 as amended. In exact real arithmetic the naive and the stable formulation
  are equal: on every well-formed score matrix \<open>loss_fn1\<close>, computed through
  \<open>log(sigmoid(s))\<close> and \<open>log(1 - sigmoid(s))\<close>, and \<open>loss_fn2\<close>, computed through
  \<open>logsigmoid(s)\<close> and \<open>logsigmoid(s) - s\<close>, have the same outcome for all thresholds and
  weights (the same scalar when the shapes match, the same error when they cannot be
  combined), because \<open>logsigmoid(x) - x = log(1 - sigmoid(x))\<close> for every real \<open>x\<close>, where
  \<open>sigmoid(x)\<close> lies strictly between 0 and 1. The float32 results agree only up to
  rounding, and the rounding of \<open>1 - sigmoid(x)\<close> is large for large scores.
\<close>

theorem loss_fn1_eq_loss_fn2:
  assumes "wf_tensor2 logits"
  shows "loss_fn1 logits levels imp = loss_fn2 logits levels imp \<and>
         logsigmoid x - x = ln (1 - torch_sigmoid x) \<and>
         ln (torch_sigmoid x) = logsigmoid x \<and>
         0 < torch_sigmoid x \<and> torch_sigmoid x < 1"
  using loss_fn1_loss_fn2 [OF assms] torch_sigmoid_bounds [of x]
  by (simp add: log1m_torch_sigmoid log_torch_sigmoid)

theorem loss_fn1_eq_loss_fn2_witness:
  "wf_tensor2 \<lparr>ncols = 2, rows = [[0, 3], [1, - 2]]\<rparr> \<and>
   loss_fn1 \<lparr>ncols = 2, rows = [[0, 3], [1, - 2]]\<rparr> \<lparr>ncols = 2, rows = [[1, 0], [1, 1]]\<rparr> [1, 2] =
   loss_fn2 \<lparr>ncols = 2, rows = [[0, 3], [1, - 2]]\<rparr> \<lparr>ncols = 2, rows = [[1, 0], [1, 1]]\<rparr> [1, 2] \<and>
   logsigmoid 3 - 3 = ln (1 - torch_sigmoid 3)"
  using loss_fn1_eq_loss_fn2 [of "\<lparr>ncols = 2, rows = [[0, 3], [1, - 2]]\<rparr>"
      "\<lparr>ncols = 2, rows = [[1, 0], [1, 1]]\<rparr>" "[1, 2]" 3]
  by (simp add: wf_tensor2_def)

subsection \<open>The sign of the stable loss\<close>

text \<open>
  Claim C10 says that for every batch, with thresholds in \<open>{0, 1}\<close> and non-negative
  weights of matching length, the value returned by \<open>loss_fn2\<close> is non-negative. For a
  batch with no example (score and threshold tensors of shape \<open>(0, 4)\<close>) the row sums
  form an empty tensor and \<open>torch.mean\<close> returns \<open>nan\<close>, which is not a non-negative
  number.
\<close>

theorem loss_fn2_empty_batch:
  "loss_fn2 \<lparr>ncols = 4, rows = []\<rparr> \<lparr>ncols = 4, rows = []\<rparr> [1, 1, 1, 1] = Inr NaN"
  by (simp add: loss_fn2_def t_mul_def t_sub_def t_add_def broadcast2_def broadcast_dim_def
      nrows_def expand_def as_row_def t_map_def bind_err_def torch_sum_dim1_def torch_mean_def)

text \<open>
  Claim C10 as amended. For a batch of at least one example, with score and threshold
  matrices of one shape, thresholds in \<open>{0, 1}\<close> and non-negative weights of the
  matching length, \<open>loss_fn2\<close> returns a number and that number is non-negative:
  \<open>logsigmoid(x) < 0\<close> and \<open>logsigmoid(x) - x < 0\<close> for every real \<open>x\<close>, so every
  weighted contribution is non-positive before the negation.
\<close>

theorem loss_fn2_nonneg:
  assumes "wf_tensor2 logits" "wf_tensor2 levels" "nrows logits = nrows levels"
    "ncols logits = ncols levels" "length imp = ncols logits"
    "rows logits \<noteq> []"
    "list_all (list_all (\<lambda>l. l = 0 \<or> l = 1)) (rows levels)"
    "list_all (\<lambda>w. 0 \<le> w) imp"
  shows "(\<exists>r. loss_fn2 logits levels imp = Inr (Fin r) \<and> 0 \<le> r) \<and>
         logsigmoid x < 0 \<and> logsigmoid x - x < 0"
  using loss_fn2_nonneg_aux [OF assms] logsigmoid_neg [of x] logsigmoid_minus_neg [of x]
  by blast

theorem loss_fn2_nonneg_witness:
  "wf_tensor2 \<lparr>ncols = 2, rows = [[0, 3], [1, - 2]]\<rparr> \<and>
   wf_tensor2 \<lparr>ncols = 2, rows = [[1, 0], [1, 1]]\<rparr> \<and>
   nrows \<lparr>ncols = 2, rows = [[0, 3], [1, - 2]]\<rparr> = nrows \<lparr>ncols = 2, rows = [[1, 0], [1, 1]]\<rparr> \<and>
   ncols \<lparr>ncols = 2, rows = [[0, 3], [1, - 2]]\<rparr> = ncols \<lparr>ncols = 2, rows = [[1, 0], [1, 1]]\<rparr> \<and>
   length [1, 2 :: real] = ncols \<lparr>ncols = 2, rows = [[0, 3], [1, - 2]]\<rparr> \<and>
   rows \<lparr>ncols = 2, rows = [[0, 3], [1, - 2]]\<rparr> \<noteq> [] \<and>
   list_all (list_all (\<lambda>l. l = 0 \<or> l = 1)) (rows \<lparr>ncols = 2, rows = [[1, 0], [1, 1 :: real]]\<rparr>) \<and>
   list_all (\<lambda>w. 0 \<le> w) [1, 2 :: real] \<and>
   (\<exists>r. loss_fn2 \<lparr>ncols = 2, rows = [[0, 3], [1, - 2]]\<rparr>
          \<lparr>ncols = 2, rows = [[1, 0], [1, 1]]\<rparr> [1, 2] = Inr (Fin r) \<and> 0 \<le> r)"
  using loss_fn2_nonneg [of "\<lparr>ncols = 2, rows = [[0, 3], [1, - 2]]\<rparr>"
      "\<lparr>ncols = 2, rows = [[1, 0], [1, 1]]\<rparr>" "[1, 2]" 0]
  by (simp add: wf_tensor2_def nrows_def)

subsection \<open>The level encoder\<close>

text \<open>
  Claim C3. For every class count \<open>K \<ge> 2\<close> and every label \<open>y\<close> with
  \<open>0 \<le> y \<le> K - 1\<close>, \<open>label_to_levels y K\<close> is a vector of length exactly \<open>K - 1\<close>
  whose entry \<open>i\<close> is 1 if \<open>i < y\<close> and 0 otherwise, for \<open>i = 0, ..., K - 2\<close>.
\<close>

theorem label_to_levels_entries:
  assumes "2 \<le> K" "0 \<le> y" "y \<le> K - 1"
  shows "length (label_to_levels y K) = nat (K - 1) \<and>
         (\<forall>i < nat (K - 1). label_to_levels y K ! i = (if int i < y then 1 else 0))"
  using assms by (auto simp: label_to_levels_eq nth_append)

theorem label_to_levels_entries_witness:
  "(2::int) \<le> 5 \<and> (0::int) \<le> 2 \<and> (2::int) \<le> 5 - 1 \<and>
   length (label_to_levels 2 5) = nat (5 - 1) \<and>
   label_to_levels 2 5 ! 1 = 1 \<and> label_to_levels 2 5 ! 2 = 0"
  using label_to_levels_entries [of 5 2] by simp

text \<open>
  Claim C4. For every \<open>K \<ge> 2\<close> and \<open>0 \<le> y \<le> K - 1\<close> the encoding has length
  \<open>K - 1\<close>, is monotonically non-increasing from index 0 (a block of ones followed by a
  block of zeros), and its entries sum to \<open>y\<close>; label 0 gives the all-zero vector and
  label \<open>K - 1\<close> the all-ones vector.
\<close>

theorem label_to_levels_invariants:
  assumes "2 \<le> K" "0 \<le> y" "y \<le> K - 1"
  shows "length (label_to_levels y K) = nat (K - 1) \<and>
         (\<forall>i j. i \<le> j \<and> j < nat (K - 1) \<longrightarrow> label_to_levels y K ! j \<le> label_to_levels y K ! i) \<and>
         (\<forall>i < nat y. label_to_levels y K ! i = 1) \<and>
         (\<forall>i. nat y \<le> i \<and> i < nat (K - 1) \<longrightarrow> label_to_levels y K ! i = 0) \<and>
         sum_list (label_to_levels y K) = real_of_int y \<and>
         label_to_levels 0 K = replicate (nat (K - 1)) 0 \<and>
         label_to_levels (K - 1) K = replicate (nat (K - 1)) 1"
proof -
  have "sum_list (label_to_levels y K) = real_of_int y"
    using assms by (simp add: label_to_levels_eq sum_list_replicate_real)
  moreover have "\<forall>i j. i \<le> j \<and> j < nat (K - 1) \<longrightarrow> label_to_levels y K ! j \<le> label_to_levels y K ! i"
    using assms by (auto simp: label_to_levels_eq nth_append)
  moreover have "\<forall>i < nat y. label_to_levels y K ! i = 1"
    by (simp add: label_to_levels_eq nth_append)
  moreover have "\<forall>i. nat y \<le> i \<and> i < nat (K - 1) \<longrightarrow> label_to_levels y K ! i = 0"
    using assms by (auto simp: label_to_levels_eq nth_append)
  moreover have "length (label_to_levels y K) = nat (K - 1)"
    using assms by (simp add: label_to_levels_eq)
  ultimately show ?thesis
    by (simp add: label_to_levels_eq)
qed

theorem label_to_levels_invariants_witness:
  "(2::int) \<le> 5 \<and> (0::int) \<le> 2 \<and> (2::int) \<le> 5 - 1 \<and>
   length (label_to_levels 2 5) = nat (5 - 1) \<and>
   sum_list (label_to_levels 2 5) = real_of_int 2 \<and>
   label_to_levels 0 5 = replicate (nat (5 - 1)) 0 \<and>
   label_to_levels (5 - 1) 5 = replicate (nat (5 - 1)) 1"
  using label_to_levels_invariants [of 5 2] by simp

subsection \<open>The rank decoder\<close>

text \<open>
  Claim C5. For a batch of probability vectors of length \<open>K - 1\<close>, the decoder returns
  for each example the number of entries strictly greater than 0.5, so an entry equal
  to 0.5 is not counted (a vector of entries 0.5 decodes to 0), and each predicted label
  lies between 0 and \<open>K - 1\<close>. This holds for all real entries, those in \<open>[0, 1]\<close> among
  them.
\<close>

theorem predicted_labels_count_range:
  assumes "wf_tensor2 probas" "int (ncols probas) = K - 1"
  shows "length (predicted_labels probas) = nrows probas \<and>
         (\<forall>i < nrows probas.
            predicted_labels probas ! i = int (length (filter (\<lambda>p. p > 1 / 2) (rows probas ! i))) \<and>
            predicted_labels probas ! i = int (card {j. j < ncols probas \<and> rows probas ! i ! j > 1 / 2}) \<and>
            0 \<le> predicted_labels probas ! i \<and> predicted_labels probas ! i \<le> K - 1) \<and>
         predicted_labels \<lparr>ncols = ncols probas, rows = [replicate (ncols probas) (1 / 2)]\<rparr> = [0]"
proof -
  have "predicted_labels probas ! i = int (length (filter (\<lambda>p. p > 1 / 2) (rows probas ! i))) \<and>
        predicted_labels probas ! i = int (card {j. j < ncols probas \<and> rows probas ! i ! j > 1 / 2}) \<and>
        0 \<le> predicted_labels probas ! i \<and> predicted_labels probas ! i \<le> K - 1"
    if i: "i < nrows probas" for i
  proof -
    let ?r = "rows probas ! i"
    have len: "length ?r = ncols probas"
      using i assms(1) by (simp add: wf_rows_length nrows_def)
    have c: "predicted_labels probas ! i = int (length (filter (\<lambda>p. p > 1 / 2) ?r))"
      using i by (simp add: predicted_labels_count nrows_def)
    have "length (filter (\<lambda>p. p > 1 / 2) ?r) \<le> length ?r"
      by (rule length_filter_le)
    then have "predicted_labels probas ! i \<le> K - 1"
      using c len assms(2) by simp
    moreover have "length (filter (\<lambda>p. p > 1 / 2) ?r) = card {j. j < ncols probas \<and> ?r ! j > 1 / 2}"
      using len by (simp add: length_filter_conv_card)
    ultimately show ?thesis
      using c by simp
  qed
  moreover have "length (predicted_labels probas) = nrows probas"
    by (simp add: predicted_labels_count nrows_def)
  moreover have "predicted_labels \<lparr>ncols = ncols probas, rows = [replicate (ncols probas) (1 / 2)]\<rparr> = [0]"
    by (simp add: predicted_labels_count)
  ultimately show ?thesis
    by blast
qed

theorem predicted_labels_count_range_witness:
  "wf_tensor2 \<lparr>ncols = 4, rows = [[1 / 2, 3 / 5, 0, 1], [9 / 10, 1 / 2, 1 / 2, 2 / 5]]\<rparr> \<and>
   int (ncols \<lparr>ncols = 4, rows = [[1 / 2, 3 / 5, 0, 1], [9 / 10, 1 / 2, 1 / 2, 2 / 5]]\<rparr>) = 5 - 1 \<and>
   predicted_labels \<lparr>ncols = 4, rows = [[1 / 2, 3 / 5, 0, 1], [9 / 10, 1 / 2, 1 / 2, 2 / 5]]\<rparr> = [2, 1] \<and>
   length (predicted_labels \<lparr>ncols = 4, rows = [[1 / 2, 3 / 5, 0, 1], [9 / 10, 1 / 2, 1 / 2, 2 / 5]]\<rparr>) =
     nrows \<lparr>ncols = 4, rows = [[1 / 2, 3 / 5, 0, 1], [9 / 10, 1 / 2, 1 / 2, 2 / 5]]\<rparr>"
  using predicted_labels_count_range
    [of "\<lparr>ncols = 4, rows = [[1 / 2, 3 / 5, 0, 1], [9 / 10, 1 / 2, 1 / 2, 2 / 5]]\<rparr>" 5]
  by (simp add: wf_tensor2_def nrows_def predicted_labels_def predict_levels_def)

text \<open>
  Claim C6. Round trip: for every \<open>K \<ge> 2\<close> and \<open>0 \<le> y \<le> K - 1\<close>, the encoding
  \<open>label_to_levels y K\<close>, read as a probability vector (1 as 1.0, 0 as 0.0) and fed to the
  decoder, gives back exactly \<open>y\<close>.
\<close>

theorem decode_encode_roundtrip:
  assumes "2 \<le> K" "0 \<le> y" "y \<le> K - 1"
  shows "predicted_labels \<lparr>ncols = nat (K - 1), rows = [label_to_levels y K]\<rparr> = [y]"
  using assms
  by (simp add: predicted_labels_count label_to_levels_eq filter_replicate_ones_zeros)

theorem decode_encode_roundtrip_witness:
  "(2::int) \<le> 5 \<and> (0::int) \<le> 4 \<and> (4::int) \<le> 5 - 1 \<and>
   predicted_labels \<lparr>ncols = nat (5 - 1), rows = [label_to_levels 4 5]\<rparr> = [4]"
  using decode_encode_roundtrip [of 5 4] by simp

subsection \<open>Per-example independence\<close>

text \<open>
  Claim C9 says that reordering the examples of a batch leaves the scalar value of the
  loss unchanged. In float32 it does not: \<open>torch.mean\<close> adds the per-example values in
  the order of the rows. Take three examples with one threshold each, scores
  \<open>-2^29\<close>, \<open>-20\<close>, \<open>-20\<close>, thresholds 1 and weight 1. The per-example values are exactly
  \<open>2^29\<close>, 20 and 20. In this order each addition of 20 to \<open>2^29\<close> is rounded away and
  the loss is the rounded \<open>2^29 / 3\<close>; with the rows in the order 1, 2, 0 the sum is
  \<open>40 + 2^29\<close>, which rounds to \<open>2^29 + 64\<close>, and the loss is \<open>(2^29 + 64) / 3\<close>.
\<close>

theorem loss_fn2_f32_order:
  "is_permutation [1, 2, 0] 3 \<and>
   loss_fn2_f32 \<lparr>ncols = 1, rows = [[- 536870912], [- 20], [- 20]]\<rparr>
     \<lparr>ncols = 1, rows = [[1], [1], [1]]\<rparr> [1] = Inr (Fin 178956976) \<and>
   loss_fn2_f32 (permute_rows [1, 2, 0] \<lparr>ncols = 1, rows = [[- 536870912], [- 20], [- 20]]\<rparr>)
     (permute_rows [1, 2, 0] \<lparr>ncols = 1, rows = [[1], [1], [1]]\<rparr>) [1] = Inr (Fin 178956992)"
proof -
  have "is_permutation [1, 2, 0] 3"
    by (simp add: is_permutation_def upt_rec)
  then show ?thesis
    by (simp only: loss_fn2_f32_order_a loss_fn2_f32_order_b simp_thms)
qed

text \<open>
  Claim C9 as amended. Reordering the examples of a batch by a permutation, applied
  alike to the rows of the score and threshold matrices, permutes the predicted labels
  in the same way, and no example depends on another: the batch loss is the mean of the
  losses of the one-example batches, and the label predicted for an example is the one
  predicted for it alone. In exact real arithmetic, where the order of a summation does
  not matter, the value of \<open>loss_fn2\<close> and of \<open>loss_fn1\<close> is therefore unchanged; the
  float32 value can change with the order in which the mean is accumulated.
\<close>

theorem batch_permutation_invariance:
  assumes "wf_tensor2 logits" "wf_tensor2 levels" "nrows logits = n" "nrows levels = n"
    "ncols logits = ncols levels" "length imp = ncols logits"
    "nrows probas = n" "is_permutation p n"
  shows "loss_fn2 (permute_rows p logits) (permute_rows p levels) imp = loss_fn2 logits levels imp \<and>
         loss_fn1 (permute_rows p logits) (permute_rows p levels) imp = loss_fn1 logits levels imp \<and>
         predicted_labels (permute_rows p probas) = permute p (predicted_labels probas) \<and>
         (\<exists>ls. length ls = n \<and>
            (\<forall>i<n. loss_fn2 (example logits i) (example levels i) imp = Inr (Fin (ls ! i))) \<and>
            loss_fn2 logits levels imp = Inr (torch_mean ls)) \<and>
         (\<forall>i<n. predicted_labels (example probas i) = [predicted_labels probas ! i])"
proof -
  have sub: "set p \<subseteq> {0..<nrows logits}"
    using assms(3,8) by (simp add: is_permutation_set)
  have l2: "loss_fn2 (permute_rows p logits) (permute_rows p levels) imp = loss_fn2 logits levels imp"
    using assms(1-6,8) by (rule loss_fn2_permute)
  have "loss_fn1 (permute_rows p logits) (permute_rows p levels) imp =
        loss_fn2 (permute_rows p logits) (permute_rows p levels) imp"
    using assms(1) sub by (intro loss_fn1_loss_fn2 permute_rows_wf)
  then have l1: "loss_fn1 (permute_rows p logits) (permute_rows p levels) imp = loss_fn1 logits levels imp"
    using l2 loss_fn1_loss_fn2 [OF assms(1)] by simp
  have pl: "predicted_labels (permute_rows p probas) = permute p (predicted_labels probas)"
    using assms(7,8) by (rule predicted_labels_permute)
  have ex: "\<exists>ls. length ls = n \<and>
            (\<forall>i<n. loss_fn2 (example logits i) (example levels i) imp = Inr (Fin (ls ! i))) \<and>
            loss_fn2 logits levels imp = Inr (torch_mean ls)"
    using assms(1-6) by (rule loss_fn2_mean_of_examples)
  have "\<forall>i<n. predicted_labels (example probas i) = [predicted_labels probas ! i]"
    using assms(7) by (simp add: predicted_labels_example)
  with l2 l1 pl ex show ?thesis
    by blast
qed

theorem batch_permutation_invariance_witness:
  "wf_tensor2 \<lparr>ncols = 2, rows = [[0, 3], [1, - 2], [5, 4]]\<rparr> \<and>
   wf_tensor2 \<lparr>ncols = 2, rows = [[1, 0], [1, 1], [0, 0]]\<rparr> \<and>
   nrows \<lparr>ncols = 2, rows = [[0, 3], [1, - 2], [5, 4]]\<rparr> = 3 \<and>
   nrows \<lparr>ncols = 2, rows = [[1, 0], [1, 1], [0, 0]]\<rparr> = 3 \<and>
   ncols \<lparr>ncols = 2, rows = [[0, 3], [1, - 2], [5, 4]]\<rparr> =
     ncols \<lparr>ncols = 2, rows = [[1, 0], [1, 1], [0, 0]]\<rparr> \<and>
   length [1, 2 :: real] = ncols \<lparr>ncols = 2, rows = [[0, 3], [1, - 2], [5, 4]]\<rparr> \<and>
   nrows \<lparr>ncols = 2, rows = [[1 / 5, 3 / 5], [4 / 5, 9 / 10], [1 / 2, 0]]\<rparr> = 3 \<and>
   is_permutation [2, 0, 1] 3 \<and>
   loss_fn2 (permute_rows [2, 0, 1] \<lparr>ncols = 2, rows = [[0, 3], [1, - 2], [5, 4]]\<rparr>)
            (permute_rows [2, 0, 1] \<lparr>ncols = 2, rows = [[1, 0], [1, 1], [0, 0]]\<rparr>) [1, 2] =
   loss_fn2 \<lparr>ncols = 2, rows = [[0, 3], [1, - 2], [5, 4]]\<rparr>
            \<lparr>ncols = 2, rows = [[1, 0], [1, 1], [0, 0]]\<rparr> [1, 2] \<and>
   predicted_labels (permute_rows [2, 0, 1] \<lparr>ncols = 2, rows = [[1 / 5, 3 / 5], [4 / 5, 9 / 10], [1 / 2, 0]]\<rparr>) =
   permute [2, 0, 1] (predicted_labels \<lparr>ncols = 2, rows = [[1 / 5, 3 / 5], [4 / 5, 9 / 10], [1 / 2, 0]]\<rparr>) \<and>
   predicted_labels (permute_rows [2, 0, 1] \<lparr>ncols = 2, rows = [[1 / 5, 3 / 5], [4 / 5, 9 / 10], [1 / 2, 0]]\<rparr>) =
   [0, 1, 2]"
proof -
  have p: "is_permutation [2, 0, 1] 3"
    by (simp add: is_permutation_def upt_rec)
  have pl: "predicted_labels (permute_rows [2, 0, 1]
      \<lparr>ncols = 2, rows = [[1 / 5, 3 / 5], [4 / 5, 9 / 10], [1 / 2, 0]]\<rparr>) = [0, 1, 2]"
    by (simp add: predicted_labels_def predict_levels_def permute_rows_def permute_def)
  show ?thesis
    using p pl batch_permutation_invariance [of "\<lparr>ncols = 2, rows = [[0, 3], [1, - 2], [5, 4]]\<rparr>"
      "\<lparr>ncols = 2, rows = [[1, 0], [1, 1], [0, 0]]\<rparr>" 3 "[1, 2]"
      "\<lparr>ncols = 2, rows = [[1 / 5, 3 / 5], [4 / 5, 9 / 10], [1 / 2, 0]]\<rparr>" "[2, 0, 1]"]
    by (simp add: wf_tensor2_def nrows_def)
qed

subsection \<open>Input validation\<close>

text \<open>
  Claim C7 says that every invalid input is rejected with an input-validation error: a
  label outside \<open>[0, K - 1]\<close>, a class count below 2, score, threshold and weight
  vectors of different lengths, a negative weight. The code has no validation. Label 7
  for five classes is encoded as seven ones, label \<open>-2\<close> as six zeros, and a class count
  of 1 gives the empty vector; negative weights are used as they are and give a
  negative loss; a weight vector of length 1 against scores of length 2 is broadcast.
\<close>

theorem validation_counterexample:
  "label_to_levels 7 5 = [1, 1, 1, 1, 1, 1, 1] \<and>
   label_to_levels (- 2) 5 = [0, 0, 0, 0, 0, 0] \<and>
   label_to_levels 0 1 = [] \<and>
   loss_fn2 \<lparr>ncols = 2, rows = [[0, 0]]\<rparr> \<lparr>ncols = 2, rows = [[1, 0]]\<rparr> [- 1, - 1] =
     Inr (Fin (- (2 * ln 2))) \<and>
   loss_fn2 \<lparr>ncols = 2, rows = [[0, 0]]\<rparr> \<lparr>ncols = 2, rows = [[1, 0]]\<rparr> [3] =
     Inr (Fin (6 * ln 2))"
proof -
  have "label_to_levels 7 5 = [1, 1, 1, 1, 1, 1, 1]"
    by (simp add: label_to_levels_eq eval_nat_numeral)
  moreover have "label_to_levels (- 2) 5 = [0, 0, 0, 0, 0, 0]"
    by (simp add: label_to_levels_eq eval_nat_numeral)
  moreover have "label_to_levels 0 1 = []"
    by (simp add: label_to_levels_eq)
  moreover have "loss_fn2 \<lparr>ncols = 2, rows = [[0, 0]]\<rparr> \<lparr>ncols = 2, rows = [[1, 0]]\<rparr> [- 1, - 1] =
     Inr (Fin (- (2 * ln 2)))"
    by (simp add: loss_fn2_def t_mul_def t_sub_def t_add_def broadcast2_def broadcast_dim_def
        nrows_def expand_def as_row_def t_map_def bind_err_def torch_sum_dim1_def torch_mean_def
        logsigmoid_0)
  moreover have "loss_fn2 \<lparr>ncols = 2, rows = [[0, 0]]\<rparr> \<lparr>ncols = 2, rows = [[1, 0]]\<rparr> [3] =
     Inr (Fin (6 * ln 2))"
    by (simp add: loss_fn2_def t_mul_def t_sub_def t_add_def broadcast2_def broadcast_dim_def
        nrows_def expand_def as_row_def t_map_def bind_err_def torch_sum_dim1_def torch_mean_def
        logsigmoid_0 numeral_2_eq_2)
  ultimately show ?thesis
    by blast
qed

text \<open>
  Claim C7 as amended. No argument is validated. \<open>label_to_levels\<close> does not reject a
  label outside \<open>[0, K - 1]\<close> or a class count below 2: as long as both repetition
  counts fit Python's index type (between \<open>-2^63\<close> and \<open>2^63\<close>; a list too large for the
  memory fails as well) it returns \<open>max(y, 0)\<close> ones followed by \<open>max(K - 1 - y, 0)\<close>
  zeros, a vector whose length is \<open>K - 1\<close> only if \<open>0 \<le> y \<le> K - 1\<close>. The loss functions,
  given two-dimensional score and threshold tensors and a one-dimensional weight
  tensor as in the notebook, fail with the shape error of the tensor library when the
  shapes cannot be broadcast together (two corresponding sizes differ and neither is
  1), and return a value otherwise: a dimension of size 1 is broadcast, and the sign of
  the weights is never looked at.
\<close>

theorem no_input_validation:
  assumes "- (2 ^ 63) \<le> y" "y < 2 ^ 63" "- (2 ^ 63) \<le> K - 1 - y" "K - 1 - y < 2 ^ 63"
  shows "label_to_levels y K = replicate (nat y) 1 @ replicate (nat (K - 1 - y)) 0 \<and>
         (int (length (label_to_levels y K)) = K - 1) = (0 \<le> y \<and> y \<le> K - 1) \<and>
         (\<not> broadcastable logits levels imp \<longrightarrow>
            loss_fn1 logits levels imp = Inl RuntimeError \<and>
            loss_fn2 logits levels imp = Inl RuntimeError) \<and>
         (broadcastable logits levels imp \<longrightarrow>
            (\<exists>r. loss_fn1 logits levels imp = Inr r) \<and>
            (\<exists>r. loss_fn2 logits levels imp = Inr r)) \<and>
         broadcastable logits levels (map uminus imp) = broadcastable logits levels imp"
proof -
  have "(int (length (label_to_levels y K)) = K - 1) = (0 \<le> y \<and> y \<le> K - 1)"
    by (auto simp: label_to_levels_eq)
  moreover have "broadcastable logits levels imp \<longrightarrow>
      (\<exists>r. loss_fn1 logits levels imp = Inr r) \<and> (\<exists>r. loss_fn2 logits levels imp = Inr r)"
  proof
    assume b: "broadcastable logits levels imp"
    have "loss_fn1 logits levels imp \<noteq> Inl RuntimeError"
      using b by (simp add: loss_fn1_raises_iff)
    moreover have "loss_fn2 logits levels imp \<noteq> Inl RuntimeError"
      using b by (simp add: loss_fn2_raises_iff)
    ultimately show "(\<exists>r. loss_fn1 logits levels imp = Inr r) \<and>
        (\<exists>r. loss_fn2 logits levels imp = Inr r)"
      by (metis error.exhaust sum.exhaust)
  qed
  ultimately show ?thesis
    by (simp add: label_to_levels_eq loss_fn1_raises_iff loss_fn2_raises_iff broadcastable_uminus)
qed

theorem no_input_validation_witness:
  "- (2 ^ 63) \<le> (7::int) \<and> (7::int) < 2 ^ 63 \<and>
   - (2 ^ 63) \<le> (5::int) - 1 - 7 \<and> (5::int) - 1 - 7 < 2 ^ 63 \<and>
   label_to_levels 7 5 = replicate (nat 7) 1 @ replicate (nat (5 - 1 - 7)) 0 \<and>
   loss_fn2 \<lparr>ncols = 2, rows = [[0, 0]]\<rparr> \<lparr>ncols = 2, rows = [[1, 0]]\<rparr> [1, 1, 1] =
     Inl RuntimeError \<and>
   loss_fn1 \<lparr>ncols = 2, rows = [[0, 0]]\<rparr> \<lparr>ncols = 2, rows = [[1, 0]]\<rparr> [1, 1, 1] =
     Inl RuntimeError"
  using no_input_validation [of 7 5 "\<lparr>ncols = 2, rows = [[0, 0]]\<rparr>"
      "\<lparr>ncols = 2, rows = [[1, 0]]\<rparr>" "[1, 1, 1]"]
  by (simp add: broadcastable_def broadcast_dim_def nrows_def)

subsection \<open>The reference batch\<close>

text \<open>
  Claim C8. On the notebook's batch of three examples with five classes (scores
  \<open>[[2.1, 1.8, -2.1, -1.8], [1.9, -1.0, -1.5, -1.3], [1.9, 1.8, 1.7, 1.6]]\<close>, labels
  2, 1, 4 encoded by \<open>label_to_levels\<close> and stacked, all weights 1), \<open>loss_fn1\<close> and
  \<open>loss_fn2\<close> return the same number, which is 0.692 to three decimals: over the reals
  it lies between 0.692038 and 0.692039.
\<close>

theorem example_batch_loss:
  "\<exists>V r. batch_levels = Inr V \<and>
     loss_fn1 batch_logits V importance_weights = Inr (Fin r) \<and>
     loss_fn2 batch_logits V importance_weights = Inr (Fin r) \<and>
     692038 / 1000000 < r \<and> r < 692039 / 1000000 \<and> \<bar>r - 692 / 1000\<bar> < 1 / 20000"
proof -
  let ?V = "\<lparr>ncols = 4, rows = [[1, 1, 0, 0], [1, 0, 0, 0], [1, 1, 1, 1 :: real]]\<rparr>"
  let ?r = "(2 * softplus (- (21 / 10)) + 3 * softplus (- (9 / 5)) + 2 * softplus (- (19 / 10)) +
             softplus (- 1) + softplus (- (3 / 2)) + softplus (- (13 / 10)) +
             softplus (- (17 / 10)) + softplus (- (8 / 5))) / 3"
  have l2: "loss_fn2 batch_logits ?V importance_weights = Inr (Fin ?r)"
    by (rule batch_loss2)
  have "wf_tensor2 batch_logits"
    by (simp add: batch_logits_def wf_tensor2_def)
  then have l1: "loss_fn1 batch_logits ?V importance_weights = Inr (Fin ?r)"
    using l2 by (simp only: loss_fn1_loss_fn2)
  have "692038 / 1000000 < ?r \<and> ?r < 692039 / 1000000"
    using softplus_m21_10 softplus_m9_5 softplus_m19_10 softplus_m1_1 softplus_m3_2
      softplus_m13_10 softplus_m17_10 softplus_m8_5
    by simp
  then have "692038 / 1000000 < ?r \<and> ?r < 692039 / 1000000 \<and> \<bar>?r - 692 / 1000\<bar> < 1 / 20000"
    by (simp add: abs_less_iff)
  with batch_levels_eq l1 l2 show ?thesis
    by blast
qed

end
